theory Spec2Isabelle
  imports Main "HOL-Library.AList"
begin

section \<open>Python values, exceptions and the outside world\<close>

text \<open>
  The model loader of the serving gateway is Python. Every exception the code can raise is
  a value of \<open>exn\<close>; a computation that may raise returns \<open>exn + 'a\<close> with \<open>Inl\<close> for
  the raised exception. Messages keep the first line of the source's message.
  \<open>JSONDecodeError\<close> is listed on its own because the source has a handler for it that
  comes before the handler of every other exception.
\<close>

datatype exn =
    ValueError string
  | JSONDecodeError string
  | TypeError string
  | AttributeError string
  | KeyError string
  | FileNotFoundError string
  | ImportError string
  | RuntimeError string
  | HTTPException nat string

text \<open>
  Python values as far as the loader looks into them: the JSON values of a request or of
  \<open>model_config.json\<close>, a numpy array (built by \<open>np.array\<close> from a nested list, giving it
  back with \<open>tolist()\<close>), and an opaque object with an identity and a table of the
  zero-argument methods it exposes (a tensor, a loaded model handle). A dict is the list
  of its items in insertion order, each key once. A float is kept as mantissa and
  decimal exponent; the loader never computes with it.
\<close>

datatype pyval =
    PNone
  | PBool bool
  | PInt int
  | PFloat int int
  | PStr string
  | PList "pyval list"
  | PDict "(string \<times> pyval) list"
  | PArray pyval
  | PObj nat "(string \<times> (exn + pyval)) list"

text \<open>
  A callable attribute of a user script: what \<open>inspect.signature\<close> gives for it (the
  number of parameters, or the exception it raises) and what a call with positional and
  keyword arguments returns or raises.
\<close>

datatype callable =
  Callable (signature_of: "exn + nat")
           (call: "pyval list \<Rightarrow> (string \<times> pyval) list \<Rightarrow> exn + pyval")

type_synonym module = "(string \<times> callable) list"

text \<open>
  Everything outside the loader is a field of \<open>world\<close>: the file system, the import of a
  user script, whether the pydantic schema could be imported, and the framework runtimes.
\<close>

record world =
  path_exists :: "string \<Rightarrow> bool"
  path_isdir :: "string \<Rightarrow> bool"
  open_json_load :: "string \<Rightarrow> exn + pyval"
  exec_module :: "string \<Rightarrow> exn + module"
  validator_available :: bool
  torch_load :: "string \<Rightarrow> exn + pyval"
  tf_load :: "string \<Rightarrow> exn + pyval"
  onnx_load :: "string \<Rightarrow> exn + pyval"
  pickle_load :: "string \<Rightarrow> exn + pyval"
  predict_pytorch :: "pyval \<Rightarrow> pyval \<Rightarrow> exn + pyval"
  predict_tensorflow :: "pyval \<Rightarrow> pyval \<Rightarrow> exn + pyval"
  predict_onnx :: "pyval \<Rightarrow> pyval \<Rightarrow> exn + pyval"
  model_predict :: "pyval \<Rightarrow> pyval \<Rightarrow> exn + pyval"
  np_array :: "pyval \<Rightarrow> exn + pyval"

section \<open>Paths\<close>

text \<open>\<open>str.split(sep)\<close> for a one-character separator.\<close>

fun split_sep :: "char \<Rightarrow> string \<Rightarrow> string list" where
  "split_sep c [] = [[]]"
| "split_sep c (x # xs) =
     (if x = c then [] # split_sep c xs
      else (case split_sep c xs of [] \<Rightarrow> [[x]] | w # ws \<Rightarrow> (x # w) # ws))"

text \<open>
  \<open>Path(p).name\<close> on a POSIX path: the last component, where empty components and
  \<open>.\<close> components are dropped when the path is parsed; the empty string when there is
  none.
\<close>

definition path_parts :: "string \<Rightarrow> string list" where
  "path_parts p = filter (\<lambda>c. c \<noteq> [] \<and> c \<noteq> ''.'') (split_sep CHR ''/'' p)"

definition path_name :: "string \<Rightarrow> string" where
  "path_name p = (case rev (path_parts p) of [] \<Rightarrow> [] | n # _ \<Rightarrow> n)"

text \<open>\<open>s.rfind(c)\<close>: the index of the last occurrence, \<open>None\<close> for Python's \<open>-1\<close>.\<close>

fun rfind :: "char \<Rightarrow> string \<Rightarrow> nat option" where
  "rfind c [] = None"
| "rfind c (x # xs) =
     (case rfind c xs of
        Some i \<Rightarrow> Some (Suc i)
      | None \<Rightarrow> if x = c then Some 0 else None)"

text \<open>
  \<open>Path(p).suffix\<close>: with \<open>i = name.rfind('.')\<close>, the suffix is \<open>name[i:]\<close> when
  \<open>0 < i < len(name) - 1\<close> and the empty string otherwise.
\<close>

definition path_suffix :: "string \<Rightarrow> string" where
  "path_suffix p =
     (let name = path_name p in
      case rfind CHR ''.'' name of
        None \<Rightarrow> []
      | Some i \<Rightarrow> if 0 < i \<and> Suc i < length name then drop i name else [])"

text \<open>\<open>str.lower()\<close> on ASCII text.\<close>

definition ascii_lower :: "char \<Rightarrow> char" where
  "ascii_lower c =
     (case map_of (zip ''ABCDEFGHIJKLMNOPQRSTUVWXYZ'' ''abcdefghijklmnopqrstuvwxyz'') c of
        None \<Rightarrow> c
      | Some d \<Rightarrow> d)"

definition str_lower :: "string \<Rightarrow> string" where
  "str_lower s = map ascii_lower s"

text \<open>
  \<open>os.path.join(a, b)\<close> for two POSIX components: an absolute \<open>b\<close> replaces \<open>a\<close>; a
  separator is inserted unless \<open>a\<close> is empty or already ends with one.
\<close>

definition path_join :: "string \<Rightarrow> string \<Rightarrow> string" where
  "path_join a b =
     (if b \<noteq> [] \<and> hd b = CHR ''/'' then b
      else if a = [] \<or> last a = CHR ''/'' then a @ b
      else a @ ''/'' @ b)"

text \<open>
  \<open>os.path.dirname(p)\<close>: everything up to and including the last separator, with the
  trailing separators removed unless nothing else is left.
\<close>

definition path_dirname :: "string \<Rightarrow> string" where
  "path_dirname p =
     (case rfind CHR ''/'' p of
        None \<Rightarrow> []
      | Some i \<Rightarrow>
          (let h = take (Suc i) p in
           if filter (\<lambda>c. c \<noteq> CHR ''/'') h = [] then h
           else rev (dropWhile (\<lambda>c. c = CHR ''/'') (rev h))))"

section \<open>Python operations on values\<close>

text \<open>\<open>str(e)\<close> of an exception: its message (\<open>KeyError\<close> shows the key quoted).\<close>

fun exn_str :: "exn \<Rightarrow> string" where
  "exn_str (ValueError m) = m"
| "exn_str (JSONDecodeError m) = m"
| "exn_str (TypeError m) = m"
| "exn_str (AttributeError m) = m"
| "exn_str (KeyError m) = [CHR 0x27] @ m @ [CHR 0x27]"
| "exn_str (FileNotFoundError m) = m"
| "exn_str (ImportError m) = m"
| "exn_str (RuntimeError m) = m"
| "exn_str (HTTPException n m) = m"

fun is_TypeError :: "exn \<Rightarrow> bool" where
  "is_TypeError (TypeError m) = True"
| "is_TypeError _ = False"

text \<open>Truth value of a Python value, as \<open>if x\<close> and \<open>x or y\<close> take it.\<close>

fun truthy :: "pyval \<Rightarrow> bool" where
  "truthy PNone = False"
| "truthy (PBool b) = b"
| "truthy (PInt i) = (i \<noteq> 0)"
| "truthy (PFloat m e) = (m \<noteq> 0)"
| "truthy (PStr s) = (s \<noteq> [])"
| "truthy (PList xs) = (xs \<noteq> [])"
| "truthy (PDict kvs) = (kvs \<noteq> [])"
| "truthy (PArray a) = True"
| "truthy (PObj i ms) = True"

text \<open>\<open>sep.join(xs)\<close> on a list of strings.\<close>

fun str_join :: "string \<Rightarrow> string list \<Rightarrow> string" where
  "str_join sep [] = []"
| "str_join sep [x] = x"
| "str_join sep (x # y # ys) = x @ sep @ str_join sep (y # ys)"

fun starts_with :: "string \<Rightarrow> string \<Rightarrow> bool" where
  "starts_with [] s = True"
| "starts_with (p # ps) [] = False"
| "starts_with (p # ps) (c # cs) = (p = c \<and> starts_with ps cs)"

definition ends_with :: "string \<Rightarrow> string \<Rightarrow> bool" where
  "ends_with suf s = starts_with (rev suf) (rev s)"

fun contains_str :: "string \<Rightarrow> string \<Rightarrow> bool" where
  "contains_str sub [] = (sub = [])"
| "contains_str sub (c # cs) = (starts_with sub (c # cs) \<or> contains_str sub cs)"

text \<open>\<open>d.get(k, default)\<close>; on a value that is no dict the attribute \<open>get\<close> is missing.\<close>

definition dict_get :: "(string \<times> pyval) list \<Rightarrow> string \<Rightarrow> pyval \<Rightarrow> pyval" where
  "dict_get kvs k d = (case map_of kvs k of None \<Rightarrow> d | Some v \<Rightarrow> v)"

fun py_get :: "pyval \<Rightarrow> string \<Rightarrow> pyval \<Rightarrow> exn + pyval" where
  "py_get (PDict kvs) k d = Inr (dict_get kvs k d)"
| "py_get v k d = Inl (AttributeError ''object has no attribute get'')"

text \<open>\<open>v[k]\<close> with a string key.\<close>

fun py_getitem :: "pyval \<Rightarrow> string \<Rightarrow> exn + pyval" where
  "py_getitem (PDict kvs) k = (case map_of kvs k of None \<Rightarrow> Inl (KeyError k) | Some v \<Rightarrow> Inr v)"
| "py_getitem (PList xs) k = Inl (TypeError ''list indices must be integers or slices, not str'')"
| "py_getitem (PStr s) k = Inl (TypeError ''string indices must be integers'')"
| "py_getitem v k = Inl (TypeError ''object is not subscriptable'')"

text \<open>\<open>k in v\<close> with a string \<open>k\<close>: a key of a dict, an element of a list, a substring.\<close>

fun py_contains :: "string \<Rightarrow> pyval \<Rightarrow> exn + bool" where
  "py_contains k (PDict kvs) = Inr (k \<in> fst ` set kvs)"
| "py_contains k (PList xs) = Inr (PStr k \<in> set xs)"
| "py_contains k (PStr s) = Inr (contains_str k s)"
| "py_contains k v = Inl (TypeError ''argument is not iterable'')"

text \<open>
  The elements of an argument list of the configuration as the source uses it: it is
  first formatted with \<open>', '.join(args)\<close>, which raises unless every element is a string,
  and then iterated. A list of strings gives its elements, a string its characters, a dict
  its keys.
\<close>

fun as_str :: "pyval \<Rightarrow> string option" where
  "as_str (PStr s) = Some s"
| "as_str v = None"

fun str_items :: "pyval \<Rightarrow> exn + string list" where
  "str_items (PList xs) =
     (if list_all (\<lambda>x. as_str x \<noteq> None) xs then Inr (map (\<lambda>x. the (as_str x)) xs)
      else Inl (TypeError ''sequence item: expected str instance''))"
| "str_items (PStr s) = Inr (map (\<lambda>c. [c]) s)"
| "str_items (PDict kvs) = Inr (map fst kvs)"
| "str_items v = Inl (TypeError ''can only join an iterable'')"

text \<open>\<open>hasattr(module, name)\<close> and \<open>getattr\<close>: the attribute name must be a string.\<close>

fun module_attr :: "module \<Rightarrow> pyval \<Rightarrow> exn + callable option" where
  "module_attr m (PStr n) = Inr (map_of m n)"
| "module_attr m v = Inl (TypeError ''attribute name must be string'')"

text \<open>\<open>os.path.join(d, v)\<close> where \<open>v\<close> comes from the configuration.\<close>

fun join_value :: "string \<Rightarrow> pyval \<Rightarrow> exn + string" where
  "join_value d (PStr s) = Inr (path_join d s)"
| "join_value d v = Inl (TypeError ''expected str, bytes or os.PathLike object'')"

text \<open>The zero-argument methods the prediction route asks a value for.\<close>

fun method0 :: "pyval \<Rightarrow> string \<Rightarrow> (exn + pyval) option" where
  "method0 (PArray x) n = (if n = ''tolist'' then Some (Inr x) else None)"
| "method0 (PObj i ms) n = map_of ms n"
| "method0 v n = None"

definition hasattr :: "pyval \<Rightarrow> string \<Rightarrow> bool" where
  "hasattr v n = (method0 v n \<noteq> None)"

definition call_method :: "pyval \<Rightarrow> string \<Rightarrow> exn + pyval" where
  "call_method v n =
     (case method0 v n of
        None \<Rightarrow> Inl (AttributeError (''object has no attribute '' @ n))
      | Some r \<Rightarrow> r)"


section \<open>The manifest schema (\<open>app/schemas/model_config.py\<close>)\<close>

datatype EntryPointType = MODULE | CLASS

record FunctionConfig =
  fc_name :: string
  fc_args :: "string list"

record ModelConfig =
  mc_name :: string
  mc_version :: string
  mc_framework :: string
  mc_entry_point :: string
  mc_entry_point_type :: EntryPointType
  mc_class_name :: "string option"
  mc_load :: FunctionConfig
  mc_predict :: FunctionConfig
  mc_model_file :: string
  mc_auxiliary_files :: "string list option"
  mc_description :: "string option"
  mc_author :: "string option"
  mc_tags :: "string list option"

text \<open>\<open>FunctionConfig.validate_args\<close>: the first token outside the list raises, naming it.\<close>

definition valid_args :: "string list" where
  "valid_args = [''model_path'', ''model_dir'', ''input_data'', ''model'']"

fun first_invalid_arg :: "string list \<Rightarrow> string option" where
  "first_invalid_arg [] = None"
| "first_invalid_arg (arg # rest) =
     (if arg \<notin> set valid_args then Some arg else first_invalid_arg rest)"

definition invalid_arg_message :: "string \<Rightarrow> string" where
  "invalid_arg_message arg =
     ''Invalid argument '' @ [CHR 0x27] @ arg @ [CHR 0x27] @ ''. Must be one of: ''
       @ str_join '', '' valid_args"

definition validate_args :: "string list \<Rightarrow> exn + string list" where
  "validate_args v =
     (case first_invalid_arg v of
        Some arg \<Rightarrow> Inl (ValueError (invalid_arg_message arg))
      | None \<Rightarrow> Inr v)"

text \<open>
  Building a \<open>ModelConfig\<close> from the parsed document is pydantic's work. It is modelled
  from the declarations of the schema: a field declared \<open>str\<close> takes a JSON string, a
  field declared with \<open>...\<close> is required, an \<open>Optional\<close> field may be absent or null,
  fields the schema does not declare are ignored, a validator runs on a value that passed
  the type check, and all the errors found are reported together. Each field gives either
  its errors or its value.
\<close>

definition field_str :: "(string \<times> pyval) list \<Rightarrow> string \<Rightarrow> string list + string" where
  "field_str kvs f =
     (case map_of kvs f of
        None \<Rightarrow> Inl [f @ '': field required'']
      | Some v \<Rightarrow> (case as_str v of
                    Some s \<Rightarrow> Inr s
                  | None \<Rightarrow> Inl [f @ '': str type expected'']))"

definition field_opt_str ::
  "(string \<times> pyval) list \<Rightarrow> string \<Rightarrow> string list + string option" where
  "field_opt_str kvs f =
     (case map_of kvs f of
        None \<Rightarrow> Inr None
      | Some v \<Rightarrow> (if v = PNone then Inr None
                  else case as_str v of
                         Some s \<Rightarrow> Inr (Some s)
                       | None \<Rightarrow> Inl [f @ '': str type expected'']))"

fun as_str_list :: "pyval \<Rightarrow> string list option" where
  "as_str_list (PList xs) =
     (if list_all (\<lambda>x. as_str x \<noteq> None) xs then Some (map (\<lambda>x. the (as_str x)) xs)
      else None)"
| "as_str_list v = None"

definition field_opt_str_list ::
  "(string \<times> pyval) list \<Rightarrow> string \<Rightarrow> string list + string list option" where
  "field_opt_str_list kvs f =
     (case map_of kvs f of
        None \<Rightarrow> Inr None
      | Some v \<Rightarrow> (if v = PNone then Inr None
                  else case as_str_list v of
                         Some ss \<Rightarrow> Inr (Some ss)
                       | None \<Rightarrow> Inl [f @ '': value is not a valid list of str'']))"

definition framework_literals :: "string list" where
  "framework_literals = [''sklearn'', ''pytorch'', ''tensorflow'', ''onnx'', ''custom'']"

definition field_framework :: "(string \<times> pyval) list \<Rightarrow> string list + string" where
  "field_framework kvs =
     (case map_of kvs ''framework'' of
        None \<Rightarrow> Inl [''framework: field required'']
      | Some v \<Rightarrow> (case as_str v of
                    Some s \<Rightarrow> if s \<in> set framework_literals then Inr s
                              else Inl [''framework: unexpected value'']
                  | None \<Rightarrow> Inl [''framework: unexpected value'']))"

text \<open>\<open>ModelConfig.validate_entry_point\<close>.\<close>

definition field_entry_point :: "(string \<times> pyval) list \<Rightarrow> string list + string" where
  "field_entry_point kvs =
     (case field_str kvs ''entry_point'' of
        Inl es \<Rightarrow> Inl es
      | Inr v \<Rightarrow> if \<not> ends_with ''.py'' v
                then Inl [''entry_point must be a Python file (.py)'']
                else Inr v)"

definition field_entry_point_type ::
  "(string \<times> pyval) list \<Rightarrow> string list + EntryPointType" where
  "field_entry_point_type kvs =
     (case map_of kvs ''entry_point_type'' of
        None \<Rightarrow> Inr MODULE
      | Some v \<Rightarrow> if v = PStr ''module'' then Inr MODULE
                  else if v = PStr ''class'' then Inr CLASS
                  else Inl [''entry_point_type: value is not a valid enumeration member''])"

text \<open>
  \<open>ModelConfig.validate_class_name\<close>: it does not run when the document has no
  \<open>class_name\<close>; it runs on a class name that is given, an explicit null included, and
  rejects a null or empty one (\<open>not v\<close>) when the entry point type is \<open>class\<close>. It
  sees the entry point type only when that field was valid.
\<close>

definition field_class_name ::
  "(string \<times> pyval) list \<Rightarrow> string list + string option" where
  "field_class_name kvs =
     (case map_of kvs ''class_name'' of
        None \<Rightarrow> Inr None
      | Some v \<Rightarrow>
          (case field_opt_str kvs ''class_name'' of
             Inl es \<Rightarrow> Inl es
           | Inr given \<Rightarrow>
               if field_entry_point_type kvs = Inr CLASS \<and> (given = None \<or> given = Some [])
               then Inl [''class_name is required when entry_point_type is class'']
               else Inr given))"

text \<open>A \<open>FunctionConfig\<close> field: a dict with a \<open>name\<close> and an optional \<open>args\<close> list.\<close>

definition parse_function_config :: "string \<Rightarrow> pyval \<Rightarrow> string list + FunctionConfig" where
  "parse_function_config f v =
     (case v of
        PDict kvs \<Rightarrow>
          (let r_name = field_str kvs ''name'';
               r_args = (case map_of kvs ''args'' of
                           None \<Rightarrow> Inr []
                         | Some a \<Rightarrow>
                             (case as_str_list a of
                                None \<Rightarrow> Inl [''args: value is not a valid list of str'']
                              | Some ss \<Rightarrow>
                                  (case validate_args ss of
                                     Inl e \<Rightarrow> Inl [exn_str e]
                                   | Inr ok \<Rightarrow> Inr ok)))
           in case (r_name, r_args) of
                (Inr n, Inr a) \<Rightarrow> Inr \<lparr>fc_name = n, fc_args = a\<rparr>
              | (Inl es, Inr a) \<Rightarrow> Inl (map (\<lambda>e. f @ '' -> '' @ e) es)
              | (Inr n, Inl es) \<Rightarrow> Inl (map (\<lambda>e. f @ '' -> '' @ e) es)
              | (Inl es, Inl es') \<Rightarrow> Inl (map (\<lambda>e. f @ '' -> '' @ e) (es @ es')))
      | _ \<Rightarrow> Inl [f @ '': value is not a valid dict''])"

definition field_function ::
  "(string \<times> pyval) list \<Rightarrow> string \<Rightarrow> string list + FunctionConfig" where
  "field_function kvs f =
     (case map_of kvs f of
        None \<Rightarrow> Inl [f @ '': field required'']
      | Some v \<Rightarrow> parse_function_config f v)"

definition errs :: "string list + 'a \<Rightarrow> string list" where
  "errs r = (case r of Inl es \<Rightarrow> es | Inr v \<Rightarrow> [])"

definition val_or :: "'a \<Rightarrow> string list + 'a \<Rightarrow> 'a" where
  "val_or d r = (case r of Inl es \<Rightarrow> d | Inr v \<Rightarrow> v)"

text \<open>\<open>ModelConfig(**data)\<close>: the fields in the order of their declaration.\<close>

definition model_config_errors :: "(string \<times> pyval) list \<Rightarrow> string list" where
  "model_config_errors kvs =
     errs (field_str kvs ''name'') @ errs (field_str kvs ''version'')
     @ errs (field_framework kvs) @ errs (field_entry_point kvs)
     @ errs (field_entry_point_type kvs) @ errs (field_class_name kvs)
     @ errs (field_function kvs ''load'') @ errs (field_function kvs ''predict'')
     @ errs (field_str kvs ''model_file'') @ errs (field_opt_str_list kvs ''auxiliary_files'')
     @ errs (field_opt_str kvs ''description'') @ errs (field_opt_str kvs ''author'')
     @ errs (field_opt_str_list kvs ''tags'')"

definition parse_model_config :: "(string \<times> pyval) list \<Rightarrow> string list + ModelConfig" where
  "parse_model_config kvs =
     (if model_config_errors kvs \<noteq> [] then Inl (model_config_errors kvs)
      else Inr \<lparr>mc_name = val_or [] (field_str kvs ''name''),
                mc_version = val_or [] (field_str kvs ''version''),
                mc_framework = val_or [] (field_framework kvs),
                mc_entry_point = val_or [] (field_entry_point kvs),
                mc_entry_point_type = val_or MODULE (field_entry_point_type kvs),
                mc_class_name = val_or None (field_class_name kvs),
                mc_load = val_or \<lparr>fc_name = [], fc_args = []\<rparr> (field_function kvs ''load''),
                mc_predict =
                  val_or \<lparr>fc_name = [], fc_args = []\<rparr> (field_function kvs ''predict''),
                mc_model_file = val_or [] (field_str kvs ''model_file''),
                mc_auxiliary_files = val_or None (field_opt_str_list kvs ''auxiliary_files''),
                mc_description = val_or None (field_opt_str kvs ''description''),
                mc_author = val_or None (field_opt_str kvs ''author''),
                mc_tags = val_or None (field_opt_str_list kvs ''tags'')\<rparr>)"

text \<open>
  \<open>ModelConfigValidator.validate_file\<close>: it opens and parses the file itself; every
  failure comes out as a \<open>ValueError\<close>.
\<close>

definition validate_file :: "world \<Rightarrow> string \<Rightarrow> exn + ModelConfig" where
  "validate_file w config_path =
     (case open_json_load w config_path of
        Inl e \<Rightarrow>
          (case e of
             JSONDecodeError m \<Rightarrow> Inl (ValueError (''Invalid JSON in model_config.json: '' @ m))
           | _ \<Rightarrow> Inl (ValueError (''Invalid model_config.json: '' @ exn_str e)))
      | Inr data \<Rightarrow>
          (case data of
             PDict kvs \<Rightarrow>
               (case parse_model_config kvs of
                  Inl es \<Rightarrow>
                    Inl (ValueError (''Invalid model_config.json: '' @ str_join [CHR 0x0A] es))
                | Inr config \<Rightarrow> Inr config)
           | _ \<Rightarrow>
               Inl (ValueError
                 (''Invalid model_config.json: argument after ** must be a mapping''))))"

section \<open>Framework detection\<close>

text \<open>
  \<open>ModelLoader._detect_framework\<close>: the lower-cased suffix is compared with the table
  first; the directory test is reached only when no suffix matched, and a directory
  without the marker file falls out of the chain to the final \<open>raise\<close>.
\<close>

definition detect_framework :: "world \<Rightarrow> string \<Rightarrow> exn + string" where
  "detect_framework w mpath =
     (let ext = str_lower (path_suffix mpath) in
      if ext \<in> set [''.pt'', ''.pth''] then Inr ''pytorch''
      else if ext \<in> set [''.h5''] then Inr ''tensorflow''
      else if ext = ''.onnx'' then Inr ''onnx''
      else if ext = ''.pkl'' then Inr ''sklearn''
      else if path_isdir w mpath
              \<and> path_exists w (path_join mpath ''saved_model.pb'')
           then Inr ''tensorflow''
      else Inl (ValueError (''Could not detect framework for: '' @ mpath)))"

section \<open>The loader's state\<close>

text \<open>
  \<open>ModelLoader\<close> of \<open>apps/api\<close> has five attributes; the deployed variant adds
  \<open>model_config\<close>, which holds nothing, the parsed document (when the schema could not
  be imported) or the validated \<open>ModelConfig\<close> object. \<open>PNone\<close> is Python's \<open>None\<close>.
\<close>

datatype stored_config = ConfigNone | ConfigData pyval | ConfigModel ModelConfig

record model_loader =
  model :: pyval
  framework :: pyval
  model_path :: "string option"
  custom_inference :: "module option"
  use_custom_inference :: bool

record config_loader = model_loader +
  model_config :: stored_config

definition new_model_loader :: model_loader where
  "new_model_loader =
     \<lparr>model = PNone, framework = PNone, model_path = None, custom_inference = None,
      use_custom_inference = False\<rparr>"

definition new_config_loader :: config_loader where
  "new_config_loader =
     \<lparr>model = PNone, framework = PNone, model_path = None, custom_inference = None,
      use_custom_inference = False, model_config = ConfigNone\<rparr>"

fun bindE :: "exn + 'a \<Rightarrow> ('a \<Rightarrow> exn + 'b) \<Rightarrow> exn + 'b" where
  "bindE (Inl e) f = Inl e"
| "bindE (Inr v) f = f v"

text \<open>An optional string argument that is given, non-empty and names an existing path.\<close>

definition existing :: "world \<Rightarrow> string option \<Rightarrow> string option" where
  "existing w p =
     (case p of
        None \<Rightarrow> None
      | Some d \<Rightarrow> if d \<noteq> [] \<and> path_exists w d then Some d else None)"

section \<open>Built-in framework loading\<close>

text \<open>\<open>_load_sklearn\<close> turns every failure of the unpickling into a \<open>ValueError\<close>.\<close>

definition load_sklearn :: "world \<Rightarrow> string \<Rightarrow> exn + pyval" where
  "load_sklearn w mpath =
     (case pickle_load w mpath of
        Inl e \<Rightarrow> Inl (ValueError (''Failed to load sklearn model: '' @ exn_str e))
      | Inr m \<Rightarrow> Inr m)"

definition load_builtin :: "world \<Rightarrow> string \<Rightarrow> string \<Rightarrow> exn + pyval" where
  "load_builtin w fw mpath =
     (if fw = ''pytorch'' then torch_load w mpath
      else if fw = ''tensorflow'' then tf_load w mpath
      else if fw = ''onnx'' then onnx_load w mpath
      else if fw = ''sklearn'' then load_sklearn w mpath
      else Inl (ValueError (''Unsupported framework: '' @ fw)))"

text \<open>
  The end of \<open>load_model\<close>, the same in both variants: detect the framework unless one
  was given, store it in \<open>self.framework\<close>, then load and store the model.
\<close>

definition load_by_framework ::
  "world \<Rightarrow> string \<Rightarrow> string option \<Rightarrow> 'a model_loader_scheme
     \<Rightarrow> (exn + pyval) \<times> 'a model_loader_scheme" where
  "load_by_framework w mpath fw s =
     (case (case fw of None \<Rightarrow> detect_framework w mpath | Some f \<Rightarrow> Inr f) of
        Inl e \<Rightarrow> (Inl e, s)
      | Inr f \<Rightarrow>
          (let s1 = s\<lparr>framework := PStr f\<rparr> in
           case load_builtin w f mpath of
             Inl e \<Rightarrow> (Inl e, s1)
           | Inr m \<Rightarrow> (Inr m, s1\<lparr>model := m\<rparr>)))"

section \<open>\<open>ModelLoader\<close> of \<open>apps/api\<close>\<close>

text \<open>
  The class has the same name and the same method names in both variants. The methods of
  this variant are \<open>load_model_basic\<close> and \<open>predict_basic\<close> here; \<open>load_model\<close> and
  \<open>predict\<close> are those of the deployed variant. \<open>_detect_framework\<close>, the built-in
  loaders and \<open>_predict_sklearn\<close> are the same code in both.

  \<open>load_model(model_path, framework, custom_inference_path)\<close>: a custom script counts
  only for its \<open>load_model\<close> function; without it the built-in loading follows.
\<close>

definition load_model_basic ::
  "world \<Rightarrow> string \<Rightarrow> string option \<Rightarrow> string option \<Rightarrow> model_loader
     \<Rightarrow> (exn + pyval) \<times> model_loader" where
  "load_model_basic w mpath fw cip s0 =
     (let s = s0\<lparr>model_path := Some mpath\<rparr> in
      case existing w cip of
        Some c \<Rightarrow>
          (case exec_module w c of
             Inl e \<Rightarrow> (Inl e, s)
           | Inr m \<Rightarrow>
               (let s1 = s\<lparr>custom_inference := Some m, use_custom_inference := True\<rparr> in
                case map_of m ''load_model'' of
                  Some f \<Rightarrow>
                    (case call f [PStr mpath] [] of
                       Inl e \<Rightarrow> (Inl e, s1)
                     | Inr v \<Rightarrow> (Inr v, s1\<lparr>model := v, framework := PStr ''custom''\<rparr>))
                | None \<Rightarrow> load_by_framework w mpath fw (s1\<lparr>use_custom_inference := False\<rparr>)))
      | None \<Rightarrow> load_by_framework w mpath fw s)"

text \<open>
  \<open>_predict_sklearn\<close>: \<open>self.model.predict\<close> is the runtime's \<open>model_predict\<close> on the
  handle. The tests of the source are patterns here: a string; a list that is not empty
  and starts with a string; a list that is not empty and starts with a list that is not
  empty and starts with a string. The third branch returns only when that inner test
  holds; in every other case control leaves the chain and reaches the numeric
  conversion. \<open>first_item\<close> is the expression
  \<open>item[0] if isinstance(item, list) and len(item) > 0 else item\<close>.
\<close>

fun is_ndarray :: "pyval \<Rightarrow> bool" where
  "is_ndarray (PArray a) = True"
| "is_ndarray v = False"

fun first_item :: "pyval \<Rightarrow> pyval" where
  "first_item (PList (x # xs)) = x"
| "first_item v = v"

definition flattened :: "pyval list \<Rightarrow> pyval list" where
  "flattened input_data = map first_item input_data"

definition to_numeric :: "world \<Rightarrow> pyval \<Rightarrow> pyval \<Rightarrow> exn + pyval" where
  "to_numeric w m input_data =
     (if \<not> is_ndarray input_data
      then bindE (np_array w input_data) (model_predict w m)
      else model_predict w m input_data)"

fun predict_sklearn :: "world \<Rightarrow> pyval \<Rightarrow> pyval \<Rightarrow> exn + pyval" where
  "predict_sklearn w m (PStr s) = model_predict w m (PList [PStr s])"
| "predict_sklearn w m (PList (PStr s # rest)) = model_predict w m (PList (PStr s # rest))"
| "predict_sklearn w m (PList (PList (PStr s # inner) # rest)) =
     model_predict w m (PList (flattened (PList (PStr s # inner) # rest)))"
| "predict_sklearn w m input_data = to_numeric w m input_data"

text \<open>\<open>predict(input_data)\<close>; a framework that matches no branch returns \<open>None\<close>.\<close>

definition predict_by_framework ::
  "world \<Rightarrow> 'a model_loader_scheme \<Rightarrow> pyval \<Rightarrow> exn + pyval" where
  "predict_by_framework w s input_data =
     (if framework s = PStr ''pytorch'' then predict_pytorch w (model s) input_data
      else if framework s = PStr ''tensorflow'' then predict_tensorflow w (model s) input_data
      else if framework s = PStr ''onnx'' then predict_onnx w (model s) input_data
      else if framework s = PStr ''sklearn'' then predict_sklearn w (model s) input_data
      else if framework s = PStr ''custom''
      then Inl (ValueError
             ''Custom model loaded but no predict() function found in inference.py'')
      else Inr PNone)"

definition not_loaded :: exn where
  "not_loaded = ValueError ''Model not loaded. Call load_model() first.''"

definition predict_basic :: "world \<Rightarrow> model_loader \<Rightarrow> pyval \<Rightarrow> exn + pyval" where
  "predict_basic w s input_data =
     (if model s = PNone then Inl not_loaded
      else case (if use_custom_inference s
                 then (case custom_inference s of
                         None \<Rightarrow> None
                       | Some m \<Rightarrow> map_of m ''predict'')
                 else None) of
             Some f \<Rightarrow> call f [model s, input_data] []
           | None \<Rightarrow> predict_by_framework w s input_data)"

section \<open>\<open>ModelLoader\<close> of the deployed variant: loading\<close>

text \<open>
  \<open>_try_custom_load\<close>: the candidate names in their order. A candidate that is missing,
  whose signature cannot be read, or whose call raises, is passed over; a candidate that
  returns is stored in \<open>self.model\<close> at once, and ends the search when it is not
  \<open>None\<close>.
\<close>

definition load_functions :: "string list" where
  "load_functions = [''load_model'', ''load'', ''initialize'', ''init'', ''setup'']"

definition dir_or_dirname :: "string option \<Rightarrow> string \<Rightarrow> string" where
  "dir_or_dirname mdir mpath =
     (case mdir of
        None \<Rightarrow> path_dirname mpath
      | Some d \<Rightarrow> if d \<noteq> [] then d else path_dirname mpath)"

definition load_call_args :: "nat \<Rightarrow> string \<Rightarrow> string option \<Rightarrow> pyval list" where
  "load_call_args n mpath mdir =
     (if n = 0 then []
      else if n = 1 then [PStr mpath]
      else if n = 2 then [PStr mpath, PStr (dir_or_dirname mdir mpath)]
      else [PStr mpath])"

definition call_load_candidate :: "callable \<Rightarrow> string \<Rightarrow> string option \<Rightarrow> exn + pyval" where
  "call_load_candidate func mpath mdir =
     bindE (signature_of func) (\<lambda>n. call func (load_call_args n mpath mdir) [])"

fun try_load_names ::
  "module \<Rightarrow> string \<Rightarrow> string option \<Rightarrow> string list \<Rightarrow> 'a model_loader_scheme
     \<Rightarrow> bool \<times> 'a model_loader_scheme" where
  "try_load_names m mpath mdir [] s = (False, s)"
| "try_load_names m mpath mdir (func_name # rest) s =
     (case map_of m func_name of
        None \<Rightarrow> try_load_names m mpath mdir rest s
      | Some func \<Rightarrow>
          (case call_load_candidate func mpath mdir of
             Inl e \<Rightarrow> try_load_names m mpath mdir rest s
           | Inr v \<Rightarrow>
               if v \<noteq> PNone then (True, s\<lparr>model := v\<rparr>)
               else try_load_names m mpath mdir rest (s\<lparr>model := v\<rparr>)))"

definition try_custom_load ::
  "string \<Rightarrow> string option \<Rightarrow> 'a model_loader_scheme \<Rightarrow> bool \<times> 'a model_loader_scheme" where
  "try_custom_load mpath mdir s =
     (case custom_inference s of
        None \<Rightarrow> (False, s)
      | Some m \<Rightarrow> try_load_names m mpath mdir load_functions s)"

text \<open>
  \<open>_load_from_config\<close>, first part: read the document and validate it with the schema
  when it could be imported, by the list of required fields otherwise. Every exception of
  this part is replaced by a \<open>ValueError\<close>, the one for the missing fields too, since it
  is raised inside the same \<open>try\<close>.
\<close>

definition required_fields :: "string list" where
  "required_fields = [''entry_point'', ''load'', ''predict'', ''model_file'']"

fun missing_fields :: "string list \<Rightarrow> pyval \<Rightarrow> exn + string list" where
  "missing_fields [] config_data = Inr []"
| "missing_fields (field # rest) config_data =
     bindE (py_contains field config_data) (\<lambda>present.
       bindE (missing_fields rest config_data) (\<lambda>ms.
         Inr (if present then ms else field # ms)))"

definition read_config :: "world \<Rightarrow> string \<Rightarrow> exn + pyval \<times> stored_config" where
  "read_config w config_path =
     bindE (open_json_load w config_path) (\<lambda>config_data.
       if validator_available w
       then bindE (validate_file w config_path) (\<lambda>c. Inr (config_data, ConfigModel c))
       else bindE (missing_fields required_fields config_data) (\<lambda>missing.
              if missing \<noteq> []
              then Inl (ValueError (''model_config.json missing required fields: ''
                                     @ str_join '', '' missing))
              else Inr (config_data, ConfigData config_data)))"

definition config_error :: "string \<Rightarrow> exn \<Rightarrow> exn" where
  "config_error config_path e =
     (case e of
        JSONDecodeError m \<Rightarrow> ValueError (''Invalid JSON in model_config.json: '' @ m)
      | FileNotFoundError m \<Rightarrow> ValueError (''model_config.json not found at: '' @ config_path)
      | _ \<Rightarrow> ValueError (''Invalid model_config.json: '' @ exn_str e))"

text \<open>
  Second part: the entry point must exist and import. \<open>fmt_str\<close> is the text of a
  string value inside a message; it is used on values already known to be strings.
\<close>

definition fmt_str :: "pyval \<Rightarrow> string" where
  "fmt_str v = (case as_str v of Some s \<Rightarrow> s | None \<Rightarrow> [])"

definition load_entry_point :: "world \<Rightarrow> string \<Rightarrow> pyval \<Rightarrow> exn + module" where
  "load_entry_point w mdir config_data =
     bindE (py_getitem config_data ''entry_point'') (\<lambda>ep.
       bindE (join_value mdir ep) (\<lambda>entry_point_path.
         if \<not> path_exists w entry_point_path
         then Inl (FileNotFoundError (''Entry point file not found: '' @ fmt_str ep))
         else (case exec_module w entry_point_path of
                 Inl e \<Rightarrow>
                   Inl (ImportError (''Failed to import '' @ fmt_str ep @ '': '' @ exn_str e))
               | Inr m \<Rightarrow> Inr m)))"

text \<open>
  Third part: the load function and its keyword arguments. A token that is neither
  \<open>model_path\<close> nor \<open>model_dir\<close> is logged and skipped.
\<close>

definition function_name :: "pyval \<Rightarrow> exn + pyval" where
  "function_name fconfig =
     bindE (py_get fconfig ''name'' PNone) (\<lambda>n.
       if truthy n then Inr n else py_get fconfig ''function'' PNone)"

fun load_kwargs ::
  "string \<Rightarrow> string \<Rightarrow> string list \<Rightarrow> (string \<times> pyval) list \<Rightarrow> (string \<times> pyval) list" where
  "load_kwargs model_file_path mdir [] kwargs = kwargs"
| "load_kwargs model_file_path mdir (arg # rest) kwargs =
     (if arg = ''model_path''
      then load_kwargs model_file_path mdir rest
             (AList.update ''model_path'' (PStr model_file_path) kwargs)
      else if arg = ''model_dir''
      then load_kwargs model_file_path mdir rest (AList.update ''model_dir'' (PStr mdir) kwargs)
      else load_kwargs model_file_path mdir rest kwargs)"

definition resolve_load_call ::
  "module \<Rightarrow> string \<Rightarrow> pyval \<Rightarrow> exn + callable \<times> (string \<times> pyval) list" where
  "resolve_load_call m mdir config_data =
     bindE (py_getitem config_data ''load'') (\<lambda>load_config.
       bindE (function_name load_config) (\<lambda>load_func_name.
         bindE (py_get load_config ''args'' (PList [])) (\<lambda>load_args.
           bindE (str_items load_args) (\<lambda>items.
             bindE (module_attr m load_func_name) (\<lambda>found.
               case found of
                 None \<Rightarrow>
                   Inl (AttributeError
                     (''Function '' @ [CHR 0x27] @ fmt_str load_func_name @ [CHR 0x27]
                      @ '' not found in ''
                      @ fmt_str (dict_get (case config_data of PDict kvs \<Rightarrow> kvs | _ \<Rightarrow> [])
                                   ''entry_point'' PNone)))
               | Some load_func \<Rightarrow>
                   bindE (py_getitem config_data ''model_file'') (\<lambda>mf.
                     bindE (join_value mdir mf) (\<lambda>model_file_path.
                       Inr (load_func, load_kwargs model_file_path mdir items []))))))))"

text \<open>
  \<open>_load_from_config\<close>: the attributes are assigned as the parts succeed, so a failure
  in a later part leaves the earlier assignments in place.
\<close>

definition load_from_config ::
  "world \<Rightarrow> string \<Rightarrow> string \<Rightarrow> config_loader \<Rightarrow> (exn + pyval) \<times> config_loader" where
  "load_from_config w config_path mdir s =
     (case read_config w config_path of
        Inl e \<Rightarrow> (Inl (config_error config_path e), s)
      | Inr (config_data, stored) \<Rightarrow>
          (let s1 = s\<lparr>model_config := stored\<rparr> in
           case load_entry_point w mdir config_data of
             Inl e \<Rightarrow> (Inl e, s1)
           | Inr m \<Rightarrow>
               (let s2 = s1\<lparr>custom_inference := Some m, use_custom_inference := True\<rparr> in
                case resolve_load_call m mdir config_data of
                  Inl e \<Rightarrow> (Inl e, s2)
                | Inr (load_func, kwargs) \<Rightarrow>
                    (case call load_func [] kwargs of
                       Inl e \<Rightarrow> (Inl e, s2)
                     | Inr v \<Rightarrow>
                         (case py_get config_data ''framework'' (PStr ''custom'') of
                            Inl e \<Rightarrow> (Inl e, s2\<lparr>model := v\<rparr>)
                          | Inr fwv \<Rightarrow> (Inr v, s2\<lparr>model := v, framework := fwv\<rparr>))))))"

text \<open>
  \<open>_try_auto_detect_custom_inference\<close>: first the configuration file, read leniently
  (every exception is logged and the search goes on), then the conventional file names.
\<close>

definition auto_detect_config ::
  "world \<Rightarrow> string \<Rightarrow> string \<Rightarrow> config_loader \<Rightarrow> bool \<times> config_loader" where
  "auto_detect_config w mdir mpath s =
     (if path_exists w (path_join mdir ''model_config.json'')
      then (case open_json_load w (path_join mdir ''model_config.json'') of
              Inl e \<Rightarrow> (False, s)
            | Inr config \<Rightarrow>
                (case bindE (py_get config ''entry_point'' (PStr ''inference.py''))
                        (join_value mdir) of
                   Inl e \<Rightarrow> (False, s)
                 | Inr inference_path \<Rightarrow>
                     if path_exists w inference_path
                     then (case exec_module w inference_path of
                             Inl e \<Rightarrow> (False, s)
                           | Inr m \<Rightarrow>
                               (let s1 = s\<lparr>custom_inference := Some m,
                                           use_custom_inference := True\<rparr> in
                                case bindE (py_get config ''load_function'' (PStr ''load_model''))
                                       (module_attr m) of
                                  Inl e \<Rightarrow> (False, s1)
                                | Inr None \<Rightarrow> (False, s1)
                                | Inr (Some func) \<Rightarrow>
                                    (case call func [PStr mpath] [] of
                                       Inl e \<Rightarrow> (False, s1)
                                     | Inr v \<Rightarrow> (True, s1\<lparr>model := v\<rparr>))))
                     else (False, s)))
      else (False, s))"

definition inference_files :: "string list" where
  "inference_files = [''inference.py'', ''predict.py'', ''model.py'', ''handler.py'', ''main.py'']"

fun auto_detect_files ::
  "world \<Rightarrow> string \<Rightarrow> string \<Rightarrow> string list \<Rightarrow> config_loader \<Rightarrow> bool \<times> config_loader" where
  "auto_detect_files w mdir mpath [] s = (False, s)"
| "auto_detect_files w mdir mpath (filename # rest) s =
     (if path_exists w (path_join mdir filename)
      then (case exec_module w (path_join mdir filename) of
              Inl e \<Rightarrow> auto_detect_files w mdir mpath rest s
            | Inr m \<Rightarrow>
                (case try_custom_load mpath (Some mdir)
                        (s\<lparr>custom_inference := Some m, use_custom_inference := True\<rparr>) of
                   (True, s2) \<Rightarrow> (True, s2)
                 | (False, s2) \<Rightarrow> auto_detect_files w mdir mpath rest s2))
      else auto_detect_files w mdir mpath rest s)"

definition try_auto_detect_custom_inference ::
  "world \<Rightarrow> string \<Rightarrow> string \<Rightarrow> config_loader \<Rightarrow> bool \<times> config_loader" where
  "try_auto_detect_custom_inference w mdir mpath s =
     (case auto_detect_config w mdir mpath s of
        (True, s1) \<Rightarrow> (True, s1)
      | (False, s1) \<Rightarrow> auto_detect_files w mdir mpath inference_files s1)"

text \<open>
  \<open>load_model(model_path, framework, custom_inference_path, model_dir)\<close>. The
  configuration tier returns whatever \<open>_load_from_config\<close> returns or raises. The
  auto-detection tier is the \<open>elif\<close> of the custom-script tier, so it is not entered after
  a custom script that could not load.
\<close>

definition manifest_path :: "world \<Rightarrow> string option \<Rightarrow> (string \<times> string) option" where
  "manifest_path w mdir =
     (case existing w mdir of
        None \<Rightarrow> None
      | Some d \<Rightarrow>
          if path_exists w (path_join d ''model_config.json'')
          then Some (path_join d ''model_config.json'', d)
          else None)"

definition load_model ::
  "world \<Rightarrow> string \<Rightarrow> string option \<Rightarrow> string option \<Rightarrow> string option \<Rightarrow> config_loader
     \<Rightarrow> (exn + pyval) \<times> config_loader" where
  "load_model w mpath fw cip mdir s0 =
     (let s = s0\<lparr>model_path := Some mpath\<rparr>
      in case manifest_path w mdir of
           Some (config_path, d) \<Rightarrow> load_from_config w config_path d s
         | None \<Rightarrow>
           (case existing w cip of
              Some c \<Rightarrow>
                (case exec_module w c of
                   Inl e \<Rightarrow> (Inl e, s)
                 | Inr m \<Rightarrow>
                     (case try_custom_load mpath mdir
                             (s\<lparr>custom_inference := Some m, use_custom_inference := True\<rparr>) of
                        (True, s1) \<Rightarrow> (Inr (model s1), s1\<lparr>framework := PStr ''custom''\<rparr>)
                      | (False, s1) \<Rightarrow>
                          load_by_framework w mpath fw (s1\<lparr>use_custom_inference := False\<rparr>)))
            | None \<Rightarrow>
                (case existing w mdir of
                   Some d \<Rightarrow>
                     (case try_auto_detect_custom_inference w d mpath s of
                        (True, s1) \<Rightarrow> (Inr (model s1), s1\<lparr>framework := PStr ''custom''\<rparr>)
                      | (False, s1) \<Rightarrow> load_by_framework w mpath fw s1)
                 | None \<Rightarrow> load_by_framework w mpath fw s)))"

section \<open>\<open>ModelLoader\<close> of the deployed variant: prediction\<close>

text \<open>
  \<open>_predict_from_config\<close>: it reads \<open>self.model_config\<close> as a dict. The keyword
  arguments follow the tokens; \<open>data\<close> is taken as an alias of the input, any other
  token is logged and skipped.
\<close>

fun predict_kwargs ::
  "pyval \<Rightarrow> pyval \<Rightarrow> string list \<Rightarrow> (string \<times> pyval) list \<Rightarrow> (string \<times> pyval) list" where
  "predict_kwargs input_data m [] kwargs = kwargs"
| "predict_kwargs input_data m (arg # rest) kwargs =
     (if arg = ''input_data''
      then predict_kwargs input_data m rest (AList.update ''input_data'' input_data kwargs)
      else if arg = ''model''
      then predict_kwargs input_data m rest (AList.update ''model'' m kwargs)
      else if arg = ''data''
      then predict_kwargs input_data m rest (AList.update ''data'' input_data kwargs)
      else predict_kwargs input_data m rest kwargs)"

definition the_module :: "'a model_loader_scheme \<Rightarrow> module" where
  "the_module s = (case custom_inference s of None \<Rightarrow> [] | Some m \<Rightarrow> m)"

fun config_item :: "stored_config \<Rightarrow> string \<Rightarrow> exn + pyval" where
  "config_item (ConfigData d) k = py_getitem d k"
| "config_item c k = Inl (TypeError ''object is not subscriptable'')"

definition predict_from_config :: "config_loader \<Rightarrow> pyval \<Rightarrow> exn + pyval" where
  "predict_from_config s input_data =
     bindE (config_item (model_config s) ''predict'') (\<lambda>predict_config.
       bindE (function_name predict_config) (\<lambda>predict_func_name.
         bindE (py_get predict_config ''args'' (PList [])) (\<lambda>predict_args.
           bindE (str_items predict_args) (\<lambda>items.
             bindE (module_attr (the_module s) predict_func_name) (\<lambda>found.
               case found of
                 None \<Rightarrow>
                   Inl (AttributeError
                     (''Function '' @ [CHR 0x27] @ fmt_str predict_func_name @ [CHR 0x27]
                      @ '' not found in entry point''))
               | Some predict_func \<Rightarrow>
                   call predict_func [] (predict_kwargs input_data (model s) items []))))))"

text \<open>
  \<open>_try_custom_predict\<close>, the candidate search. The first \<open>try\<close> reads the signature
  and calls by the number of parameters. A \<open>TypeError\<close> from it leads to the direct
  calls: with the input alone, and, when that raises a \<open>TypeError\<close>, with the model and
  the input. The handler of the direct call with the input alone catches \<open>TypeError\<close>
  only, so any other exception of that call leaves the function. Every other failure
  goes on to the next name.
\<close>

definition predict_functions :: "string list" where
  "predict_functions = [''predict'', ''inference'', ''run'', ''forward'', ''__call__'']"

definition no_predict_function :: exn where
  "no_predict_function =
     ValueError (''Custom inference loaded but no compatible predict function found. ''
                 @ ''Tried: predict(), inference(), run(), forward(), __call__()'')"

definition call_by_signature :: "callable \<Rightarrow> pyval \<Rightarrow> pyval \<Rightarrow> exn + pyval" where
  "call_by_signature func m input_data =
     bindE (signature_of func) (\<lambda>n.
       if n = 0 then call func [] []
       else if n = 1 then call func [input_data] []
       else call func [m, input_data] [])"

fun try_predict_names :: "module \<Rightarrow> pyval \<Rightarrow> pyval \<Rightarrow> string list \<Rightarrow> exn + pyval" where
  "try_predict_names ci m input_data [] = Inl no_predict_function"
| "try_predict_names ci m input_data (func_name # rest) =
     (case map_of ci func_name of
        None \<Rightarrow> try_predict_names ci m input_data rest
      | Some func \<Rightarrow>
          (case call_by_signature func m input_data of
             Inr v \<Rightarrow> Inr v
           | Inl e \<Rightarrow>
               if is_TypeError e
               then (case call func [input_data] [] of
                       Inr v \<Rightarrow> Inr v
                     | Inl e1 \<Rightarrow>
                         if is_TypeError e1
                         then (case call func [m, input_data] [] of
                                 Inr v \<Rightarrow> Inr v
                               | Inl e2 \<Rightarrow> try_predict_names ci m input_data rest)
                         else Inl e1)
               else try_predict_names ci m input_data rest))"

text \<open>
  The test at the head of \<open>_try_custom_predict\<close> is
  \<open>self.model_config and isinstance(self.model_config, dict)\<close>: only a non-empty dict
  passes it, a validated \<open>ModelConfig\<close> object does not.
\<close>

fun config_is_dict :: "stored_config \<Rightarrow> bool" where
  "config_is_dict (ConfigData (PDict kvs)) = (kvs \<noteq> [])"
| "config_is_dict c = False"

definition try_custom_predict :: "config_loader \<Rightarrow> pyval \<Rightarrow> exn + pyval" where
  "try_custom_predict s input_data =
     (if config_is_dict (model_config s) then predict_from_config s input_data
      else try_predict_names (the_module s) (model s) input_data predict_functions)"

text \<open>\<open>predict(input_data)\<close>.\<close>

definition predict :: "world \<Rightarrow> config_loader \<Rightarrow> pyval \<Rightarrow> exn + pyval" where
  "predict w s input_data =
     (if model s = PNone then Inl not_loaded
      else if use_custom_inference s \<and> custom_inference s \<noteq> None
      then try_custom_predict s input_data
      else predict_by_framework w s input_data)"

section \<open>The prediction route (\<open>apps/api/app/routers/predict.py\<close>)\<close>

text \<open>
  The global \<open>model_loader\<close> is \<open>None\<close> until the start-up code stores a
  \<open>ModelLoader\<close> in it, which it does before it tries to load a model.
\<close>

definition get_model_loader :: "model_loader option \<Rightarrow> exn + model_loader" where
  "get_model_loader global_loader =
     (case global_loader of
        None \<Rightarrow> Inl (HTTPException 503 ''Model not loaded yet. Please wait for initialization.'')
      | Some l \<Rightarrow> Inr l)"

text \<open>The conversion of the prediction to a serializable value.\<close>

definition to_serializable :: "pyval \<Rightarrow> exn + pyval" where
  "to_serializable prediction =
     (if hasattr prediction ''tolist'' then call_method prediction ''tolist''
      else if hasattr prediction ''numpy''
      then bindE (call_method prediction ''numpy'') (\<lambda>a. call_method a ''tolist'')
      else Inr prediction)"

record PredictResponse =
  prediction :: pyval
  model_id :: "string option"
  response_framework :: pyval

text \<open>
  The route, after the API key was accepted: the loader dependency is resolved first;
  inside the \<open>try\<close> every exception becomes a response with status 500. The inference
  time in the metadata is left out.
\<close>

definition predict_route ::
  "world \<Rightarrow> model_loader option \<Rightarrow> pyval \<Rightarrow> exn + PredictResponse" where
  "predict_route w global_loader request_input =
     bindE (get_model_loader global_loader) (\<lambda>loader.
       case bindE (predict_basic w loader request_input) to_serializable of
         Inl e \<Rightarrow> Inl (HTTPException 500 (''Prediction failed: '' @ exn_str e))
       | Inr p \<Rightarrow>
           Inr \<lparr>prediction = p, model_id = model_path loader,
                response_framework = framework loader\<rparr>)"

text \<open>The \<open>/info\<close> route of the same router.\<close>

definition model_info :: "model_loader option \<Rightarrow> exn + string option \<times> pyval" where
  "model_info global_loader =
     (case global_loader of
        None \<Rightarrow> Inl (HTTPException 503 ''Model not loaded'')
      | Some l \<Rightarrow>
          if model l = PNone then Inl (HTTPException 503 ''Model not loaded'')
          else Inr (model_path l, framework l))"

section \<open>Concrete deployments\<close>

text \<open>
  A world with the given files and directories, where nothing can be read or imported,
  the schema is available, every built-in loader returns a handle, every model returns
  its argument and \<open>np.array\<close> wraps its argument.
\<close>

definition plain_world :: "string list \<Rightarrow> string list \<Rightarrow> world" where
  "plain_world files dirs =
     \<lparr>path_exists = (\<lambda>p. p \<in> set files \<or> p \<in> set dirs),
      path_isdir = (\<lambda>p. p \<in> set dirs),
      open_json_load = (\<lambda>p. Inl (FileNotFoundError p)),
      exec_module = (\<lambda>p. Inl (ImportError p)),
      validator_available = True,
      torch_load = (\<lambda>p. Inr (PObj 1 [])),
      tf_load = (\<lambda>p. Inr (PObj 2 [])),
      onnx_load = (\<lambda>p. Inr (PObj 3 [])),
      pickle_load = (\<lambda>p. Inr (PObj 4 [])),
      predict_pytorch = (\<lambda>m x. Inr x),
      predict_tensorflow = (\<lambda>m x. Inr x),
      predict_onnx = (\<lambda>m x. Inr x),
      model_predict = (\<lambda>m x. Inr x),
      np_array = (\<lambda>v. Inr (PArray v))\<rparr>"

text \<open>
  Python functions of a user script: \<open>def f(): ...\<close>, \<open>def f(a): ...\<close> and
  \<open>def f(a, b): ...\<close>, called positionally or by keyword; any other call raises a
  \<open>TypeError\<close>.
\<close>

definition fn0 :: "(exn + pyval) \<Rightarrow> callable" where
  "fn0 body =
     Callable (Inr 0)
       (\<lambda>args kwargs. if args = [] \<and> kwargs = [] then body
                      else Inl (TypeError ''takes 0 positional arguments''))"

definition fn1 :: "string \<Rightarrow> (pyval \<Rightarrow> exn + pyval) \<Rightarrow> callable" where
  "fn1 a body =
     Callable (Inr 1)
       (\<lambda>args kwargs.
          case (args, kwargs) of
            ([x], []) \<Rightarrow> body x
          | ([], [(k, x)]) \<Rightarrow> if k = a then body x
                              else Inl (TypeError ''got an unexpected keyword argument'')
          | _ \<Rightarrow> Inl (TypeError ''wrong number of arguments''))"

definition fn2 :: "(pyval \<Rightarrow> pyval \<Rightarrow> exn + pyval) \<Rightarrow> callable" where
  "fn2 body =
     Callable (Inr 2)
       (\<lambda>args kwargs.
          case (args, kwargs) of
            ([x, y], []) \<Rightarrow> body x y
          | _ \<Rightarrow> Inl (TypeError ''wrong number of arguments''))"

text \<open>
  A ZIP deployment under \<open>/app/user_model\<close>: a manifest that declares \<open>load_model\<close>
  and the predict function \<open>classify\<close>, and a script that defines exactly these two.
\<close>

definition manifest_items :: "string \<Rightarrow> string \<Rightarrow> (string \<times> pyval) list" where
  "manifest_items load_arg predict_arg =
     [(''name'', PStr ''Sentiment''), (''version'', PStr ''1.0.0''),
      (''framework'', PStr ''custom''), (''entry_point'', PStr ''inference.py''),
      (''load'', PDict [(''name'', PStr ''load_model''),
                        (''args'', PList [PStr load_arg])]),
      (''predict'', PDict [(''name'', PStr ''classify''),
                           (''args'', PList [PStr predict_arg])]),
      (''model_file'', PStr ''model.pkl'')]"

definition manifest_doc :: "string \<Rightarrow> string \<Rightarrow> pyval" where
  "manifest_doc load_arg predict_arg = PDict (manifest_items load_arg predict_arg)"

definition script :: "string \<Rightarrow> module" where
  "script predict_arg =
     [(''load_model'',
         Callable (Inr 1) (\<lambda>args kwargs. Inr (PObj 7 []))),
      (''classify'', fn1 predict_arg (\<lambda>x. Inr (PList [PStr ''label'', x])))]"

definition zip_files :: "string list" where
  "zip_files = [''/app/user_model/model.pkl'', ''/app/user_model/model_config.json'',
                ''/app/user_model/inference.py'']"

definition deploy_world :: "bool \<Rightarrow> exn + pyval \<Rightarrow> string list \<Rightarrow> module \<Rightarrow> world" where
  "deploy_world schema doc files m =
     (plain_world files [''/app/user_model''])
       \<lparr>open_json_load :=
          (\<lambda>p. if p = ''/app/user_model/model_config.json'' then doc
               else Inl (FileNotFoundError p)),
        exec_module :=
          (\<lambda>p. if p = ''/app/user_model/inference.py'' then Inr m
               else Inl (ImportError p)),
        validator_available := schema\<rparr>"

definition zip_world :: "bool \<Rightarrow> string \<Rightarrow> string \<Rightarrow> world" where
  "zip_world schema load_arg predict_arg =
     deploy_world schema (Inr (manifest_doc load_arg predict_arg)) zip_files
       (script predict_arg)"

definition zip_load :: "bool \<Rightarrow> string \<Rightarrow> string \<Rightarrow> (exn + pyval) \<times> config_loader" where
  "zip_load schema load_arg predict_arg =
     load_model (zip_world schema load_arg predict_arg) ''/app/user_model/model.pkl''
       None None (Some ''/app/user_model'') new_config_loader"

text \<open>
  The flattening in the words of the specification: the inner lists are concatenated
  into one flat list.
\<close>

fun inner_items :: "pyval \<Rightarrow> pyval list" where
  "inner_items (PList xs) = xs"
| "inner_items v = [v]"

definition flat_concat :: "pyval list \<Rightarrow> pyval list" where
  "flat_concat xs = concat (map inner_items xs)"

text \<open>Numeric input: a list of rows, each a list of numbers.\<close>

fun is_number :: "pyval \<Rightarrow> bool" where
  "is_number (PInt i) = True"
| "is_number (PFloat m e) = True"
| "is_number v = False"

fun numeric_row :: "pyval \<Rightarrow> bool" where
  "numeric_row (PList ns) = list_all is_number ns"
| "numeric_row v = False"

text \<open>
  A session of \<open>apps/api\<close> with a scikit-learn model loaded, and a world whose model
  raises a \<open>ValueError\<close> with a given message on every call.
\<close>

definition sklearn_loader :: model_loader where
  "sklearn_loader =
     \<lparr>model = PObj 4 [], framework = PStr ''sklearn'', model_path = Some ''model.pkl'',
      custom_inference = None, use_custom_inference = False\<rparr>"

definition raising_world :: "string \<Rightarrow> world" where
  "raising_world msg = (plain_world [] [])\<lparr>model_predict := (\<lambda>m x. Inl (ValueError msg))\<rparr>"

text \<open>
  A torch-like tensor exposes both \<open>tolist\<close> and \<open>numpy\<close>, a TensorFlow-like tensor
  only \<open>numpy\<close>.
\<close>

definition torch_tensor :: pyval where
  "torch_tensor =
     PObj 5 [(''tolist'', Inr (PList [PInt 1])), (''numpy'', Inr (PArray (PList [PInt 2])))]"

definition tf_tensor :: pyval where
  "tf_tensor = PObj 6 [(''numpy'', Inr (PArray (PList [PInt 2])))]"

text \<open>
  What a load candidate contributes to the search of \<open>_try_custom_load\<close>: the value it
  returns when it exists, its call does not raise and the value is not \<open>None\<close>.
\<close>

definition candidate_value :: "module \<Rightarrow> string \<Rightarrow> string option \<Rightarrow> string \<Rightarrow> pyval option" where
  "candidate_value m mpath mdir n =
     (case map_of m n of
        None \<Rightarrow> None
      | Some func \<Rightarrow>
          (case call_load_candidate func mpath mdir of
             Inl e \<Rightarrow> None
           | Inr v \<Rightarrow> if v \<noteq> PNone then Some v else None))"

text \<open>
  A script without \<open>load_model\<close>, whose \<open>load\<close> raises, whose \<open>initialize\<close> returns
  \<open>None\<close> and whose \<open>init\<close> takes the path and the directory; a script that defines a
  predict function only; and a world with a model file and a script beside it.
\<close>

definition fallback_script :: module where
  "fallback_script =
     [(''load'', fn1 ''path'' (\<lambda>x. Inl (RuntimeError ''corrupt file''))),
      (''initialize'', fn0 (Inr PNone)),
      (''init'', fn2 (\<lambda>p d. Inr (PList [p, d]))),
      (''setup'', fn0 (Inr (PObj 9 [])))]"

definition predict_only_script :: module where
  "predict_only_script = [(''predict'', fn2 (\<lambda>m x. Inr x))]"

definition script_world :: "module \<Rightarrow> world" where
  "script_world m =
     (plain_world [''/srv/model.pkl'', ''/srv/inference.py''] [])
       \<lparr>exec_module := (\<lambda>p. if p = ''/srv/inference.py'' then Inr m else Inl (ImportError p))\<rparr>"

text \<open>
  A predict callable whose signature cannot be read, which raises a \<open>ValueError\<close> when
  called with the input alone and answers when called with the model and the input; a
  script that has it beside a working \<open>inference\<close> function; and a session that was
  loaded through a custom script without a manifest.
\<close>

definition opaque_predict :: callable where
  "opaque_predict =
     Callable (Inl (TypeError ''unsupported callable''))
       (\<lambda>args kwargs.
          case args of
            [x] \<Rightarrow> Inl (ValueError ''bad input'')
          | [m, x] \<Rightarrow> Inr (PStr ''called with model and input'')
          | _ \<Rightarrow> Inl (TypeError ''wrong number of arguments''))"

definition opaque_script :: module where
  "opaque_script =
     [(''predict'', opaque_predict),
      (''inference'', fn1 ''x'' (\<lambda>x. Inr (PStr ''inference result'')))]"

definition custom_session :: "module \<Rightarrow> config_loader" where
  "custom_session m =
     new_config_loader\<lparr>model := PObj 7 [], framework := PStr ''custom'',
       custom_inference := Some m, use_custom_inference := True\<rparr>"

text \<open>
  A world whose pickle file is corrupt, and a script whose \<open>load_model\<close> returns
  \<open>None\<close>.
\<close>

definition broken_pickle_world :: world where
  "broken_pickle_world =
     (plain_world [''model.pkl''] [])
       \<lparr>pickle_load := (\<lambda>p. Inl (RuntimeError ''invalid load key''))\<rparr>"

definition none_script :: module where
  "none_script = [(''load_model'', fn1 ''path'' (\<lambda>x. Inr PNone))]"

text \<open>
  Broken deployments: a manifest without \<open>model_file\<close>, a manifest whose \<open>load\<close>
  entry has no name, and a script whose \<open>load_model\<close> raises.
\<close>

definition manifest_without_model_file :: pyval where
  "manifest_without_model_file =
     PDict (filter (\<lambda>kv. fst kv \<noteq> ''model_file'') (manifest_items ''model_path'' ''input_data''))"

definition nameless_load :: "(string \<times> pyval) list" where
  "nameless_load = [(''args'', PList [PStr ''model_path''])]"

definition manifest_without_load_name :: "(string \<times> pyval) list" where
  "manifest_without_load_name =
     AList.update ''load'' (PDict nameless_load) (manifest_items ''model_path'' ''input_data'')"

definition raising_script :: module where
  "raising_script =
     [(''load_model'', fn1 ''model_path'' (\<lambda>x. Inl (RuntimeError ''cannot unpickle'')))]"

text \<open>
  A deployment without the schema whose script returns the keyword arguments it was
  called with, and whose manifest lists known and unknown tokens.
\<close>

definition echo_script :: module where
  "echo_script =
     [(''load_model'', Callable (Inr 2) (\<lambda>args kwargs. Inr (PDict kwargs))),
      (''classify'', Callable (Inr 3) (\<lambda>args kwargs. Inr (PDict kwargs)))]"

definition echo_load_config :: "(string \<times> pyval) list" where
  "echo_load_config =
     [(''name'', PStr ''load_model''),
      (''args'', PList (map PStr [''model_dir'', ''weights'', ''model_path'']))]"

definition echo_predict_config :: "(string \<times> pyval) list" where
  "echo_predict_config =
     [(''name'', PStr ''classify''),
      (''args'', PList (map PStr [''model'', ''data'', ''verbose'', ''input_data'']))]"

definition echo_manifest :: "(string \<times> pyval) list" where
  "echo_manifest =
     [(''entry_point'', PStr ''inference.py''), (''load'', PDict echo_load_config),
      (''predict'', PDict echo_predict_config), (''model_file'', PStr ''model.pkl'')]"

definition echo_world :: world where
  "echo_world = deploy_world False (Inr (PDict echo_manifest)) zip_files echo_script"

text \<open>
  A model directory without a manifest whose \<open>inference.py\<close> defines \<open>load_model\<close>, and
  beside it a script, named explicitly by the caller, that defines no load function.
\<close>

definition two_script_world :: world where
  "two_script_world =
     (plain_world [''/srv/bundle/model.bin'', ''/srv/bundle/inference.py'', ''/srv/custom.py'']
        [''/srv/bundle''])
       \<lparr>exec_module :=
          (\<lambda>p. if p = ''/srv/custom.py'' then Inr predict_only_script
               else if p = ''/srv/bundle/inference.py'' then Inr (script ''input_data'')
               else Inl (ImportError p))\<rparr>"

definition echo_session :: config_loader where
  "echo_session =
     new_config_loader\<lparr>model := PObj 7 [], framework := PStr ''custom'',
       custom_inference := Some echo_script, use_custom_inference := True,
       model_config := ConfigData (PDict echo_manifest)\<rparr>"

section \<open>Framework detection: theorems\<close>

text \<open>
  The suffix of a path that ends in a file name \<open>stem.ext\<close>, and with it the framework
  detected for the file names of the five suffixes.
\<close>

lemma split_sep_not_Nil: "split_sep c s \<noteq> []"
  by (induction s) (auto split: list.splits)

lemma split_sep_no_sep: "c \<notin> set n \<Longrightarrow> split_sep c n = [n]"
  by (induction n) auto

lemma split_sep_last: "c \<notin> set n \<Longrightarrow> split_sep c (a @ c # n) = split_sep c a @ [n]"
proof (induction a)
  case Nil
  then show ?case by (simp add: split_sep_no_sep)
next
  case (Cons x a)
  then show ?case
    using split_sep_not_Nil [of c a] by (cases "split_sep c a") auto
qed

lemma path_name_file:
  assumes "CHR ''/'' \<notin> set n" and "n \<noteq> []" and "n \<noteq> ''.''"
  shows "path_name (dir @ ''/'' @ n) = n"
  using assms split_sep_last [of "CHR ''/''" n dir]
  by (simp add: path_name_def path_parts_def)

lemma rfind_last: "c \<notin> set e \<Longrightarrow> rfind c (s @ c # e) = Some (length s)"
proof (induction s)
  case Nil
  have "rfind c e = None" using Nil by (induction e) auto
  then show ?case by simp
next
  case (Cons x s)
  then show ?case by simp
qed

lemma path_suffix_file:
  assumes "stem \<noteq> []" and "CHR ''/'' \<notin> set stem" and "CHR ''/'' \<notin> set e"
    and "CHR ''.'' \<notin> set e" and "e \<noteq> []"
  shows "path_suffix (dir @ ''/'' @ stem @ ''.'' @ e) = ''.'' @ e"
proof -
  let ?n = "stem @ ''.'' @ e"
  have n: "path_name (dir @ ''/'' @ ?n) = ?n"
    using assms by (intro path_name_file) (auto simp: append_eq_Cons_conv)
  have r: "rfind CHR ''.'' ?n = Some (length stem)"
    using rfind_last [OF assms(4), of stem] by simp
  have n': "path_name (dir @ CHR ''/'' # stem @ CHR ''.'' # e) = stem @ CHR ''.'' # e"
    using n by simp
  have r': "rfind CHR ''.'' (stem @ CHR ''.'' # e) = Some (length stem)"
    using r by simp
  show ?thesis
    using assms(1,5) by (simp add: path_suffix_def n' r')
qed

lemma str_lower_table:
  "str_lower ''.pt'' = ''.pt''" "str_lower ''.pth'' = ''.pth''" "str_lower ''.h5'' = ''.h5''"
  "str_lower ''.onnx'' = ''.onnx''" "str_lower ''.pkl'' = ''.pkl''"
  "str_lower ''.PKL'' = ''.pkl''"
  by code_simp+

lemma detect_framework_file:
  assumes "stem \<noteq> []" and "CHR ''/'' \<notin> set stem"
  shows "detect_framework w (dir @ ''/'' @ stem @ ''.pt'') = Inr ''pytorch''"
    and "detect_framework w (dir @ ''/'' @ stem @ ''.pth'') = Inr ''pytorch''"
    and "detect_framework w (dir @ ''/'' @ stem @ ''.h5'') = Inr ''tensorflow''"
    and "detect_framework w (dir @ ''/'' @ stem @ ''.onnx'') = Inr ''onnx''"
    and "detect_framework w (dir @ ''/'' @ stem @ ''.pkl'') = Inr ''sklearn''"
    and "detect_framework w (dir @ ''/'' @ stem @ ''.PKL'') = Inr ''sklearn''"
proof -
  have s: "path_suffix (dir @ ''/'' @ stem @ ''.'' @ e) = ''.'' @ e"
    if "CHR ''/'' \<notin> set e" "CHR ''.'' \<notin> set e" "e \<noteq> []" for e
    using assms that by (intro path_suffix_file)
  show "detect_framework w (dir @ ''/'' @ stem @ ''.pt'') = Inr ''pytorch''"
    using s [of "''pt''"] by (simp add: detect_framework_def str_lower_table)
  show "detect_framework w (dir @ ''/'' @ stem @ ''.pth'') = Inr ''pytorch''"
    using s [of "''pth''"] by (simp add: detect_framework_def str_lower_table)
  show "detect_framework w (dir @ ''/'' @ stem @ ''.h5'') = Inr ''tensorflow''"
    using s [of "''h5''"] by (simp add: detect_framework_def str_lower_table)
  show "detect_framework w (dir @ ''/'' @ stem @ ''.onnx'') = Inr ''onnx''"
    using s [of "''onnx''"] by (simp add: detect_framework_def str_lower_table)
  show "detect_framework w (dir @ ''/'' @ stem @ ''.pkl'') = Inr ''sklearn''"
    using s [of "''pkl''"] by (simp add: detect_framework_def str_lower_table)
  show "detect_framework w (dir @ ''/'' @ stem @ ''.PKL'') = Inr ''sklearn''"
    using s [of "''PKL''"] by (simp add: detect_framework_def str_lower_table)
qed

text \<open>
  Claim C6 says that every non-directory path with a suffix other than \<open>.pt\<close>,
  \<open>.pth\<close>, \<open>.h5\<close>, \<open>.onnx\<close>, \<open>.pkl\<close> raises. The file \<open>model.PKL\<close> has the
  suffix \<open>.PKL\<close>, which is none of the five, and is no directory; the code lower-cases
  the suffix and returns \<open>sklearn\<close>.
\<close>

theorem detect_framework_upper_case_counterexample:
  "path_suffix ''model.PKL'' = ''.PKL''
   \<and> ''.PKL'' \<notin> set [''.pt'', ''.pth'', ''.h5'', ''.onnx'', ''.pkl'']
   \<and> \<not> path_isdir (plain_world [''model.PKL''] []) ''model.PKL''
   \<and> detect_framework (plain_world [''model.PKL''] []) ''model.PKL'' = Inr ''sklearn''"
  by code_simp

text \<open>
  Claim C6, amended: framework detection compares the lower-cased suffix of the path, and
  the suffix comes first. It returns \<open>pytorch\<close> for \<open>.pt\<close> and \<open>.pth\<close>, \<open>tensorflow\<close>
  for \<open>.h5\<close>, \<open>onnx\<close> for \<open>.onnx\<close> and \<open>sklearn\<close> for \<open>.pkl\<close>; when the lower-cased
  suffix is none of these, it returns \<open>tensorflow\<close> for a directory that contains
  \<open>saved_model.pb\<close> and raises the error that no framework was detected, naming the
  path, for every path that is not a directory. In particular a file \<open>stem.pt\<close>,
  \<open>stem.pth\<close>, \<open>stem.h5\<close>, \<open>stem.onnx\<close> or \<open>stem.pkl\<close> in any directory is detected
  by its suffix alone, and so is \<open>stem.PKL\<close>.
\<close>

theorem detect_framework_table:
  "(str_lower (path_suffix p) \<in> {''.pt'', ''.pth''}
      \<longrightarrow> detect_framework w p = Inr ''pytorch'')
   \<and> (str_lower (path_suffix p) = ''.h5'' \<longrightarrow> detect_framework w p = Inr ''tensorflow'')
   \<and> (str_lower (path_suffix p) = ''.onnx'' \<longrightarrow> detect_framework w p = Inr ''onnx'')
   \<and> (str_lower (path_suffix p) = ''.pkl'' \<longrightarrow> detect_framework w p = Inr ''sklearn'')
   \<and> (str_lower (path_suffix p) \<notin> {''.pt'', ''.pth'', ''.h5'', ''.onnx'', ''.pkl''}
        \<and> path_isdir w p \<and> path_exists w (path_join p ''saved_model.pb'')
      \<longrightarrow> detect_framework w p = Inr ''tensorflow'')
   \<and> (str_lower (path_suffix p) \<notin> {''.pt'', ''.pth'', ''.h5'', ''.onnx'', ''.pkl''}
        \<and> \<not> path_isdir w p
      \<longrightarrow> detect_framework w p
            = Inl (ValueError (''Could not detect framework for: '' @ p)))
   \<and> (stem \<noteq> [] \<and> CHR ''/'' \<notin> set stem
      \<longrightarrow> detect_framework w (dir @ ''/'' @ stem @ ''.pt'') = Inr ''pytorch''
          \<and> detect_framework w (dir @ ''/'' @ stem @ ''.pth'') = Inr ''pytorch''
          \<and> detect_framework w (dir @ ''/'' @ stem @ ''.h5'') = Inr ''tensorflow''
          \<and> detect_framework w (dir @ ''/'' @ stem @ ''.onnx'') = Inr ''onnx''
          \<and> detect_framework w (dir @ ''/'' @ stem @ ''.pkl'') = Inr ''sklearn''
          \<and> detect_framework w (dir @ ''/'' @ stem @ ''.PKL'') = Inr ''sklearn'')"
proof -
  have table:
    "(str_lower (path_suffix p) \<in> {''.pt'', ''.pth''}
        \<longrightarrow> detect_framework w p = Inr ''pytorch'')
     \<and> (str_lower (path_suffix p) = ''.h5'' \<longrightarrow> detect_framework w p = Inr ''tensorflow'')
     \<and> (str_lower (path_suffix p) = ''.onnx'' \<longrightarrow> detect_framework w p = Inr ''onnx'')
     \<and> (str_lower (path_suffix p) = ''.pkl'' \<longrightarrow> detect_framework w p = Inr ''sklearn'')
     \<and> (str_lower (path_suffix p) \<notin> {''.pt'', ''.pth'', ''.h5'', ''.onnx'', ''.pkl''}
          \<and> path_isdir w p \<and> path_exists w (path_join p ''saved_model.pb'')
        \<longrightarrow> detect_framework w p = Inr ''tensorflow'')
     \<and> (str_lower (path_suffix p) \<notin> {''.pt'', ''.pth'', ''.h5'', ''.onnx'', ''.pkl''}
          \<and> \<not> path_isdir w p
        \<longrightarrow> detect_framework w p
              = Inl (ValueError (''Could not detect framework for: '' @ p)))"
    by (simp add: detect_framework_def Let_def)
  show ?thesis
    using table detect_framework_file [of stem w dir] by blast
qed

theorem detect_framework_table_witness:
  "str_lower (path_suffix ''/m/net.PTH'') \<in> {''.pt'', ''.pth''}
   \<and> detect_framework (plain_world [] []) ''/m/net.PTH'' = Inr ''pytorch''
   \<and> str_lower (path_suffix ''/m/net.h5'') = ''.h5''
   \<and> detect_framework (plain_world [] []) ''/m/net.h5'' = Inr ''tensorflow''
   \<and> str_lower (path_suffix ''net.onnx'') = ''.onnx''
   \<and> detect_framework (plain_world [] []) ''net.onnx'' = Inr ''onnx''
   \<and> str_lower (path_suffix ''/m/model.pkl'') = ''.pkl''
   \<and> detect_framework (plain_world [] []) ''/m/model.pkl'' = Inr ''sklearn''
   \<and> path_isdir (plain_world [''/m/saved_model.pb''] [''/m'']) ''/m''
   \<and> path_exists (plain_world [''/m/saved_model.pb''] [''/m'']) (path_join ''/m'' ''saved_model.pb'')
   \<and> detect_framework (plain_world [''/m/saved_model.pb''] [''/m'']) ''/m'' = Inr ''tensorflow''
   \<and> \<not> path_isdir (plain_world [''notes.txt''] []) ''notes.txt''
   \<and> detect_framework (plain_world [''notes.txt''] []) ''notes.txt''
       = Inl (ValueError ''Could not detect framework for: notes.txt'')
   \<and> CHR ''/'' \<notin> set ''model''
   \<and> detect_framework (plain_world [] []) ''/app/user_model/model.pkl'' = Inr ''sklearn''"
proof -
  have h7: "''model'' \<noteq> [] \<and> CHR ''/'' \<notin> set ''model''" by simp
  have c7: "detect_framework (plain_world [] []) (''/app/user_model'' @ ''/'' @ ''model'' @ ''.pkl'')
            = Inr ''sklearn''"
    using detect_framework_table [where stem = "''model''" and dir = "''/app/user_model''"
            and w = "plain_world [] []"] h7
    by blast
  have h1: "str_lower (path_suffix ''/m/net.PTH'') \<in> {''.pt'', ''.pth''}" by code_simp
  have h2: "str_lower (path_suffix ''/m/net.h5'') = ''.h5''" by code_simp
  have h3: "str_lower (path_suffix ''net.onnx'') = ''.onnx''" by code_simp
  have h4: "str_lower (path_suffix ''/m/model.pkl'') = ''.pkl''" by code_simp
  have h5: "str_lower (path_suffix ''/m'') \<notin> {''.pt'', ''.pth'', ''.h5'', ''.onnx'', ''.pkl''}
            \<and> path_isdir (plain_world [''/m/saved_model.pb''] [''/m'']) ''/m''
            \<and> path_exists (plain_world [''/m/saved_model.pb''] [''/m''])
                 (path_join ''/m'' ''saved_model.pb'')"
    by code_simp
  have h6: "str_lower (path_suffix ''notes.txt'') \<notin> {''.pt'', ''.pth'', ''.h5'', ''.onnx'', ''.pkl''}
            \<and> \<not> path_isdir (plain_world [''notes.txt''] []) ''notes.txt''"
    by code_simp
  have c1: "detect_framework (plain_world [] []) ''/m/net.PTH'' = Inr ''pytorch''"
    using detect_framework_table [where p = "''/m/net.PTH''" and w = "plain_world [] []"] h1
    by blast
  have c2: "detect_framework (plain_world [] []) ''/m/net.h5'' = Inr ''tensorflow''"
    using detect_framework_table [where p = "''/m/net.h5''" and w = "plain_world [] []"] h2
    by blast
  have c3: "detect_framework (plain_world [] []) ''net.onnx'' = Inr ''onnx''"
    using detect_framework_table [where p = "''net.onnx''" and w = "plain_world [] []"] h3
    by blast
  have c4: "detect_framework (plain_world [] []) ''/m/model.pkl'' = Inr ''sklearn''"
    using detect_framework_table [where p = "''/m/model.pkl''" and w = "plain_world [] []"] h4
    by blast
  have c5: "detect_framework (plain_world [''/m/saved_model.pb''] [''/m'']) ''/m''
            = Inr ''tensorflow''"
    using detect_framework_table [where p = "''/m''"
            and w = "plain_world [''/m/saved_model.pb''] [''/m'']"] h5
    by blast
  have c6: "detect_framework (plain_world [''notes.txt''] []) ''notes.txt''
            = Inl (ValueError (''Could not detect framework for: '' @ ''notes.txt''))"
    using detect_framework_table [where p = "''notes.txt''"
            and w = "plain_world [''notes.txt''] []"] h6
    by blast
  show ?thesis using h1 h2 h3 h4 h5 h6 h7 c1 c2 c3 c4 c5 c6 c7 by simp
qed

section \<open>The scikit-learn predict path: theorems\<close>

text \<open>
  Claim C7 says that a non-empty list of non-empty lists whose first inner element is a
  string is flattened to a flat list of strings. For \<open>[["a", "b"], ["c"]]\<close> the
  flattened list is \<open>["a", "b", "c"]\<close>; the code calls the model with \<open>["a", "c"]\<close>,
  the first element of every inner list.
\<close>

theorem predict_sklearn_flatten_counterexample:
  "predict_sklearn (plain_world [] []) (PObj 4 [])
     (PList [PList [PStr ''a'', PStr ''b''], PList [PStr ''c'']])
     = Inr (PList [PStr ''a'', PStr ''c''])
   \<and> flat_concat [PList [PStr ''a'', PStr ''b''], PList [PStr ''c'']]
     = [PStr ''a'', PStr ''b'', PStr ''c'']
   \<and> predict_sklearn (plain_world [] []) (PObj 4 [])
       (PList [PList [PStr ''a'', PStr ''b''], PList [PStr ''c'']])
     \<noteq> model_predict (plain_world [] []) (PObj 4 [])
         (PList (flat_concat [PList [PStr ''a'', PStr ''b''], PList [PStr ''c'']]))"
  by code_simp

text \<open>
  Claim C7, amended: on the scikit-learn predict path a single string is passed to the
  model as a one-element list; a list whose first element is a string is passed
  unchanged; a list whose first element is a non-empty list starting with a string is
  passed with every element that is a non-empty list replaced by its first element and
  every other element kept, which for a list of one-element lists of strings is the flat
  list of these strings; a list of rows of numbers is converted with \<open>np.array\<close> before
  the model is called, and a value that is already an array is passed as it is.
\<close>

theorem predict_sklearn_inputs:
  "predict_sklearn w m (PStr s) = model_predict w m (PList [PStr s])
   \<and> predict_sklearn w m (PList (PStr s # rest)) = model_predict w m (PList (PStr s # rest))
   \<and> predict_sklearn w m (PList (PList (PStr s # inner) # rest))
       = model_predict w m (PList (PStr s # map first_item rest))
   \<and> (ss \<noteq> [] \<longrightarrow> predict_sklearn w m (PList (map (\<lambda>t. PList [PStr t]) ss))
                      = model_predict w m (PList (map PStr ss)))
   \<and> (list_all numeric_row rows
        \<longrightarrow> predict_sklearn w m (PList rows)
            = bindE (np_array w (PList rows)) (model_predict w m))
   \<and> predict_sklearn w m (PArray a) = model_predict w m (PArray a)"
proof -
  have one: "predict_sklearn w m (PList (map (\<lambda>t. PList [PStr t]) ss))
               = model_predict w m (PList (map PStr ss))" if "ss \<noteq> []"
    using that by (cases ss) (simp_all add: flattened_def comp_def)
  have num: "predict_sklearn w m (PList rows)
               = bindE (np_array w (PList rows)) (model_predict w m)"
    if all: "list_all numeric_row rows"
  proof (cases rows)
    case Nil
    then show ?thesis by (simp add: to_numeric_def)
  next
    case (Cons r rs)
    with all have "numeric_row r" by simp
    then obtain ns where r: "r = PList ns" and ns: "list_all is_number ns"
      by (cases r) auto
    show ?thesis
    proof (cases ns)
      case Nil
      with r Cons show ?thesis by (simp add: to_numeric_def)
    next
      case inner: (Cons n ns')
      with ns have "is_number n" by simp
      then show ?thesis
        using r Cons inner by (cases n) (simp_all add: to_numeric_def)
    qed
  qed
  show ?thesis using one num by (simp add: flattened_def to_numeric_def)
qed

theorem predict_sklearn_inputs_witness:
  "predict_sklearn (plain_world [] []) (PObj 4 []) (PStr ''great movie'')
     = Inr (PList [PStr ''great movie''])
   \<and> predict_sklearn (plain_world [] []) (PObj 4 []) (PList [PStr ''a'', PStr ''b''])
     = Inr (PList [PStr ''a'', PStr ''b''])
   \<and> [''a'', ''b''] \<noteq> ([] :: string list)
   \<and> predict_sklearn (plain_world [] []) (PObj 4 [])
       (PList (map (\<lambda>t. PList [PStr t]) [''a'', ''b'']))
     = Inr (PList [PStr ''a'', PStr ''b''])
   \<and> list_all numeric_row [PList [PInt 1, PInt 2, PInt 3]]
   \<and> predict_sklearn (plain_world [] []) (PObj 4 []) (PList [PList [PInt 1, PInt 2, PInt 3]])
     = Inr (PArray (PList [PList [PInt 1, PInt 2, PInt 3]]))"
proof -
  note T = predict_sklearn_inputs [of "plain_world [] []" "PObj 4 []" _ _ _ "[''a'', ''b'']"
             "[PList [PInt 1, PInt 2, PInt 3]]"]
  have h1: "[''a'', ''b''] \<noteq> ([] :: string list)" by simp
  have h2: "list_all numeric_row [PList [PInt 1, PInt 2, PInt 3]]" by simp
  have c1: "predict_sklearn (plain_world [] []) (PObj 4 [])
              (PList (map (\<lambda>t. PList [PStr t]) [''a'', ''b'']))
            = model_predict (plain_world [] []) (PObj 4 []) (PList (map PStr [''a'', ''b'']))"
    using T h1 by blast
  have c2: "predict_sklearn (plain_world [] []) (PObj 4 []) (PList [PList [PInt 1, PInt 2, PInt 3]])
            = bindE (np_array (plain_world [] []) (PList [PList [PInt 1, PInt 2, PInt 3]]))
                (model_predict (plain_world [] []) (PObj 4 []))"
    using T h2 by blast
  show ?thesis using c1 c2 by (simp add: plain_world_def)
qed

section \<open>The prediction route: theorems\<close>

text \<open>
  Claim C8: a predict call on an unloaded session is reported as a distinct "not ready"
  condition, which the caller can tell from a failure of a loaded model's invocation.
  The loader's \<open>predict\<close> raises at once, but the route answers a session that exists and
  has no model handle with status 500 and the text \<open>Prediction failed: ...\<close>, exactly as
  it answers a loaded model whose invocation raises; the \<open>/info\<close> route of the same
  router answers the same session with status 503.
\<close>

theorem unloaded_predict_is_status_500:
  "predict_route w (Some new_model_loader) x
     = Inl (HTTPException 500 ''Prediction failed: Model not loaded. Call load_model() first.'')
   \<and> predict_route (raising_world ''Model not loaded. Call load_model() first.'')
       (Some sklearn_loader) (PStr ''good movie'')
     = Inl (HTTPException 500 ''Prediction failed: Model not loaded. Call load_model() first.'')
   \<and> model_info (Some new_model_loader) = Inl (HTTPException 503 ''Model not loaded'')"
  by (simp add: predict_route_def get_model_loader_def predict_basic_def new_model_loader_def
      not_loaded_def model_info_def raising_world_def sklearn_loader_def
      predict_by_framework_def plain_world_def)

text \<open>
  Claim C10: the conversion of the prediction applies its rules in order. A value that
  exposes \<open>tolist\<close> is converted with it, whether or not it also exposes \<open>numpy\<close>; a
  value that exposes only \<open>numpy\<close> is converted with \<open>numpy().tolist()\<close>; any other
  value is passed through unchanged. The response of the route carries the converted
  value.
\<close>

theorem to_serializable_order:
  "(hasattr p ''tolist'' \<longrightarrow> to_serializable p = call_method p ''tolist'')
   \<and> (\<not> hasattr p ''tolist'' \<and> hasattr p ''numpy''
        \<longrightarrow> to_serializable p
            = bindE (call_method p ''numpy'') (\<lambda>a. call_method a ''tolist''))
   \<and> (\<not> hasattr p ''tolist'' \<and> \<not> hasattr p ''numpy'' \<longrightarrow> to_serializable p = Inr p)
   \<and> (predict_basic w l x = Inr p
        \<longrightarrow> predict_route w (Some l) x
            = (case to_serializable p of
                 Inl e \<Rightarrow> Inl (HTTPException 500 (''Prediction failed: '' @ exn_str e))
               | Inr v \<Rightarrow> Inr \<lparr>prediction = v, model_id = model_path l,
                                response_framework = framework l\<rparr>))"
  by (simp add: to_serializable_def predict_route_def get_model_loader_def)

theorem to_serializable_order_witness:
  "hasattr torch_tensor ''tolist'' \<and> hasattr torch_tensor ''numpy''
   \<and> to_serializable torch_tensor = Inr (PList [PInt 1])
   \<and> \<not> hasattr tf_tensor ''tolist'' \<and> hasattr tf_tensor ''numpy''
   \<and> to_serializable tf_tensor = Inr (PList [PInt 2])
   \<and> \<not> hasattr (PList [PInt 3]) ''tolist'' \<and> \<not> hasattr (PList [PInt 3]) ''numpy''
   \<and> to_serializable (PList [PInt 3]) = Inr (PList [PInt 3])
   \<and> predict_basic (plain_world [] []) sklearn_loader (PList [PList [PInt 1, PInt 2]])
       = Inr (PArray (PList [PList [PInt 1, PInt 2]]))
   \<and> predict_route (plain_world [] []) (Some sklearn_loader) (PList [PList [PInt 1, PInt 2]])
       = Inr \<lparr>prediction = PList [PList [PInt 1, PInt 2]], model_id = Some ''model.pkl'',
              response_framework = PStr ''sklearn''\<rparr>"
proof -
  have h1: "hasattr torch_tensor ''tolist'' \<and> hasattr torch_tensor ''numpy''" by code_simp
  have h2: "\<not> hasattr tf_tensor ''tolist'' \<and> hasattr tf_tensor ''numpy''" by code_simp
  have h3: "\<not> hasattr (PList [PInt 3]) ''tolist'' \<and> \<not> hasattr (PList [PInt 3]) ''numpy''"
    by code_simp
  have h4: "predict_basic (plain_world [] []) sklearn_loader (PList [PList [PInt 1, PInt 2]])
              = Inr (PArray (PList [PList [PInt 1, PInt 2]]))"
    by code_simp
  have c1: "to_serializable torch_tensor = call_method torch_tensor ''tolist''"
    using to_serializable_order [of torch_tensor] h1 by blast
  have c2: "to_serializable tf_tensor
              = bindE (call_method tf_tensor ''numpy'') (\<lambda>a. call_method a ''tolist'')"
    using to_serializable_order [of tf_tensor] h2 by blast
  have c3: "to_serializable (PList [PInt 3]) = Inr (PList [PInt 3])"
    using to_serializable_order [of "PList [PInt 3]"] h3 by blast
  have c4: "predict_route (plain_world [] []) (Some sklearn_loader)
              (PList [PList [PInt 1, PInt 2]])
            = (case to_serializable (PArray (PList [PList [PInt 1, PInt 2]])) of
                 Inl e \<Rightarrow> Inl (HTTPException 500 (''Prediction failed: '' @ exn_str e))
               | Inr v \<Rightarrow> Inr \<lparr>prediction = v, model_id = model_path sklearn_loader,
                                response_framework = framework sklearn_loader\<rparr>)"
    using to_serializable_order [of "PArray (PList [PList [PInt 1, PInt 2]])"
            "plain_world [] []" sklearn_loader "PList [PList [PInt 1, PInt 2]]"] h4
    by blast
  have e1: "call_method torch_tensor ''tolist'' = Inr (PList [PInt 1])" by code_simp
  have e2: "bindE (call_method tf_tensor ''numpy'') (\<lambda>a. call_method a ''tolist'')
              = Inr (PList [PInt 2])" by code_simp
  have e3: "to_serializable (PArray (PList [PList [PInt 1, PInt 2]]))
              = Inr (PList [PList [PInt 1, PInt 2]])" by code_simp
  show ?thesis
    using h1 h2 h3 h4 c1 c2 c3 c4 e1 e2 e3 by (simp add: sklearn_loader_def)
qed

section \<open>The custom-script load tier: theorems\<close>

lemma try_load_names_skip:
  "list_all (\<lambda>p. candidate_value m mpath mdir p = None) pre \<Longrightarrow>
   try_load_names m mpath mdir (pre @ rest) s = try_load_names m mpath mdir rest s
   \<or> try_load_names m mpath mdir (pre @ rest) s
       = try_load_names m mpath mdir rest (s\<lparr>model := PNone\<rparr>)"
proof (induction pre arbitrary: s)
  case Nil
  then show ?case by simp
next
  case (Cons p pre)
  then have p: "candidate_value m mpath mdir p = None"
    and pre: "list_all (\<lambda>p. candidate_value m mpath mdir p = None) pre" by simp_all
  show ?case
  proof (cases "map_of m p")
    case None
    then show ?thesis using Cons.IH [OF pre, of s] by simp
  next
    case (Some func)
    show ?thesis
    proof (cases "call_load_candidate func mpath mdir")
      case (Inl e)
      then show ?thesis using Some Cons.IH [OF pre, of s] by simp
    next
      case (Inr v)
      with p Some have "v = PNone" by (simp add: candidate_value_def split: if_splits)
      then show ?thesis
        using Some Inr Cons.IH [OF pre, of "s\<lparr>model := PNone\<rparr>"] by simp
    qed
  qed
qed

lemma try_load_names_hit:
  "candidate_value m mpath mdir n = Some v \<Longrightarrow>
   try_load_names m mpath mdir (n # post) s = (True, s\<lparr>model := v\<rparr>)"
  by (auto simp: candidate_value_def split: option.splits sum.splits if_splits)

lemma try_load_names_first:
  assumes "list_all (\<lambda>p. candidate_value m mpath mdir p = None) pre"
    and "candidate_value m mpath mdir n = Some v"
  shows "try_load_names m mpath mdir (pre @ n # post) s = (True, s\<lparr>model := v\<rparr>)"
proof -
  have a: "try_load_names m mpath mdir (n # post) s = (True, s\<lparr>model := v\<rparr>)"
    by (rule try_load_names_hit [OF assms(2)])
  have b: "try_load_names m mpath mdir (n # post) (s\<lparr>model := PNone\<rparr>)
             = (True, s\<lparr>model := v\<rparr>)"
    using try_load_names_hit [OF assms(2), of post "s\<lparr>model := PNone\<rparr>"] by simp
  show ?thesis
    using try_load_names_skip [OF assms(1), of "n # post" s] by (auto simp only: a b)
qed

lemma try_load_names_none:
  "list_all (\<lambda>p. candidate_value m mpath mdir p = None) names \<Longrightarrow>
   try_load_names m mpath mdir names s = (False, s)
   \<or> try_load_names m mpath mdir names s = (False, s\<lparr>model := PNone\<rparr>)"
  using try_load_names_skip [of m mpath mdir names "[]" s] by simp

text \<open>
  Claim C4 says that when every load candidate of the explicit custom script is
  exhausted, loading falls through to the next tier, which in the order of the tiers is
  the heuristic auto-detection. In the code the auto-detection is the \<open>elif\<close> of the
  custom-script tier. Here the explicit script defines no load function, the model
  directory has no manifest and its \<open>inference.py\<close> defines \<open>load_model\<close>: the
  auto-detection alone loads the model, and so does \<open>load_model\<close> when no script is
  named, but with the script named \<open>load_model\<close> goes to the built-in loading and
  raises.
\<close>

theorem exhausted_script_skips_auto_detection_counterexample:
  "manifest_path two_script_world (Some ''/srv/bundle'') = None
   \<and> existing two_script_world (Some ''/srv/custom.py'') = Some ''/srv/custom.py''
   \<and> list_all (\<lambda>p. candidate_value predict_only_script ''/srv/bundle/model.bin''
                      (Some ''/srv/bundle'') p = None) load_functions
   \<and> fst (try_auto_detect_custom_inference two_script_world ''/srv/bundle''
             ''/srv/bundle/model.bin''
             (new_config_loader\<lparr>model_path := Some ''/srv/bundle/model.bin''\<rparr>)) = True
   \<and> model (snd (try_auto_detect_custom_inference two_script_world ''/srv/bundle''
             ''/srv/bundle/model.bin''
             (new_config_loader\<lparr>model_path := Some ''/srv/bundle/model.bin''\<rparr>))) = PObj 7 []
   \<and> fst (load_model two_script_world ''/srv/bundle/model.bin'' None (Some ''/srv/custom.py'')
             (Some ''/srv/bundle'') new_config_loader)
       = Inl (ValueError ''Could not detect framework for: /srv/bundle/model.bin'')
   \<and> fst (load_model two_script_world ''/srv/bundle/model.bin'' None None
             (Some ''/srv/bundle'') new_config_loader) = Inr (PObj 7 [])"
  by code_simp

text \<open>
  Claim C4, amended: in the custom-script tier the load candidates are tried in the order
  \<open>load_model\<close>, \<open>load\<close>, \<open>initialize\<close>, \<open>init\<close>, \<open>setup\<close>; a candidate with no
  parameter is called without arguments, with one parameter on the model path, with two
  on the model path and the model directory (the directory of the model path when no
  directory was given); a candidate that raises is passed over; the first candidate
  that exists and returns a value other than \<open>None\<close> ends the search and
  \<open>load_model\<close> returns its value with the framework \<open>custom\<close>; when every candidate
  is missing, raises or returns \<open>None\<close>, \<open>load_model\<close> does not fail there: it
  passes over the heuristic auto-detection and goes on with the built-in framework
  loading.
\<close>

theorem custom_load_search:
  "load_functions = [''load_model'', ''load'', ''initialize'', ''init'', ''setup'']
   \<and> (signature_of func = Inr 0
        \<longrightarrow> call_load_candidate func mpath mdir = call func [] [])
   \<and> (signature_of func = Inr 1
        \<longrightarrow> call_load_candidate func mpath mdir = call func [PStr mpath] [])
   \<and> (signature_of func = Inr 2
        \<longrightarrow> call_load_candidate func mpath mdir
            = call func [PStr mpath, PStr (dir_or_dirname mdir mpath)] [])
   \<and> (d \<noteq> [] \<longrightarrow> dir_or_dirname (Some d) mpath = d)
   \<and> (map_of m p = Some func \<and> call_load_candidate func mpath mdir = Inl e
        \<longrightarrow> candidate_value m mpath mdir p = None)
   \<and> (custom_inference s = Some m \<and> load_functions = pre @ n # post
        \<and> list_all (\<lambda>p. candidate_value m mpath mdir p = None) pre
        \<and> candidate_value m mpath mdir n = Some v
        \<longrightarrow> try_custom_load mpath mdir s = (True, s\<lparr>model := v\<rparr>))
   \<and> (manifest_path w mdir = None \<and> existing w cip = Some c \<and> exec_module w c = Inr m
        \<and> load_functions = pre @ n # post
        \<and> list_all (\<lambda>p. candidate_value m mpath mdir p = None) pre
        \<and> candidate_value m mpath mdir n = Some v
        \<longrightarrow> load_model w mpath fw cip mdir s0
            = (Inr v, s0\<lparr>model := v, framework := PStr ''custom'', model_path := Some mpath,
                         custom_inference := Some m, use_custom_inference := True\<rparr>))
   \<and> (manifest_path w mdir = None \<and> existing w cip = Some c \<and> exec_module w c = Inr m
        \<and> list_all (\<lambda>p. candidate_value m mpath mdir p = None) load_functions
        \<longrightarrow> load_model w mpath fw cip mdir s0
            = load_by_framework w mpath fw
                ((snd (try_custom_load mpath mdir
                         (s0\<lparr>model_path := Some mpath, custom_inference := Some m,
                             use_custom_inference := True\<rparr>)))
                   \<lparr>use_custom_inference := False\<rparr>))"
proof -
  have search: "try_custom_load mpath mdir s = (True, s\<lparr>model := v\<rparr>)"
    if "custom_inference s = Some m" "load_functions = pre @ n # post"
       "list_all (\<lambda>p. candidate_value m mpath mdir p = None) pre"
       "candidate_value m mpath mdir n = Some v"
    using that try_load_names_first [of m mpath mdir pre n v post s]
    by (simp add: try_custom_load_def)
  have won: "load_model w mpath fw cip mdir s0
            = (Inr v, s0\<lparr>model := v, framework := PStr ''custom'', model_path := Some mpath,
                         custom_inference := Some m, use_custom_inference := True\<rparr>)"
    if "manifest_path w mdir = None" "existing w cip = Some c" "exec_module w c = Inr m"
       "load_functions = pre @ n # post"
       "list_all (\<lambda>p. candidate_value m mpath mdir p = None) pre"
       "candidate_value m mpath mdir n = Some v"
    using that
      try_load_names_first [of m mpath mdir pre n v post
        "s0\<lparr>model_path := Some mpath, custom_inference := Some m,
            use_custom_inference := True\<rparr>"]
    by (simp add: load_model_def try_custom_load_def)
  have lost: "load_model w mpath fw cip mdir s0
            = load_by_framework w mpath fw
                ((snd (try_custom_load mpath mdir
                         (s0\<lparr>model_path := Some mpath, custom_inference := Some m,
                             use_custom_inference := True\<rparr>)))
                   \<lparr>use_custom_inference := False\<rparr>)"
    if "manifest_path w mdir = None" "existing w cip = Some c" "exec_module w c = Inr m"
       "list_all (\<lambda>p. candidate_value m mpath mdir p = None) load_functions"
    using that
      try_load_names_none [of m mpath mdir load_functions
        "s0\<lparr>model_path := Some mpath, custom_inference := Some m,
            use_custom_inference := True\<rparr>"]
    by (auto simp: load_model_def try_custom_load_def)
  have raised: "candidate_value m mpath mdir p = None"
    if "map_of m p = Some func" "call_load_candidate func mpath mdir = Inl e"
    using that by (simp add: candidate_value_def)
  have order: "load_functions = [''load_model'', ''load'', ''initialize'', ''init'', ''setup'']"
    by (simp add: load_functions_def)
  have a0: "call_load_candidate func mpath mdir = call func [] []"
    if "signature_of func = Inr 0"
    using that by (simp add: call_load_candidate_def load_call_args_def)
  have a1: "call_load_candidate func mpath mdir = call func [PStr mpath] []"
    if "signature_of func = Inr 1"
    using that by (simp add: call_load_candidate_def load_call_args_def)
  have a2: "call_load_candidate func mpath mdir
              = call func [PStr mpath, PStr (dir_or_dirname mdir mpath)] []"
    if "signature_of func = Inr 2"
    using that by (simp add: call_load_candidate_def load_call_args_def)
  have dir: "dir_or_dirname (Some d) mpath = d" if "d \<noteq> []"
    using that by (simp add: dir_or_dirname_def)
  show ?thesis
    using order a0 a1 a2 dir raised search won lost by blast
qed

theorem custom_load_search_witness:
  "signature_of (fn0 (Inr PNone)) = Inr 0
   \<and> call_load_candidate (fn0 (Inr PNone)) ''/srv/model.pkl'' None = Inr PNone
   \<and> signature_of (fn1 ''path'' (\<lambda>x. Inr x)) = Inr 1
   \<and> call_load_candidate (fn1 ''path'' (\<lambda>x. Inr x)) ''/srv/model.pkl'' None
       = Inr (PStr ''/srv/model.pkl'')
   \<and> signature_of (fn2 (\<lambda>p d. Inr (PList [p, d]))) = Inr 2
   \<and> call_load_candidate (fn2 (\<lambda>p d. Inr (PList [p, d]))) ''/srv/model.pkl'' (Some ''/data'')
       = Inr (PList [PStr ''/srv/model.pkl'', PStr ''/data''])
   \<and> map_of fallback_script ''load'' = Some (fn1 ''path'' (\<lambda>x. Inl (RuntimeError ''corrupt file'')))
   \<and> candidate_value fallback_script ''/srv/model.pkl'' None ''load'' = None
   \<and> load_functions = [''load_model'', ''load'', ''initialize''] @ ''init'' # [''setup'']
   \<and> list_all (\<lambda>p. candidate_value fallback_script ''/srv/model.pkl'' None p = None)
         [''load_model'', ''load'', ''initialize'']
   \<and> candidate_value fallback_script ''/srv/model.pkl'' None ''init''
       = Some (PList [PStr ''/srv/model.pkl'', PStr ''/srv''])
   \<and> try_custom_load ''/srv/model.pkl'' None
         (new_config_loader\<lparr>custom_inference := Some fallback_script\<rparr>)
       = (True, new_config_loader\<lparr>custom_inference := Some fallback_script,
                  model := PList [PStr ''/srv/model.pkl'', PStr ''/srv'']\<rparr>)
   \<and> fst (load_model (script_world fallback_script) ''/srv/model.pkl'' None
              (Some ''/srv/inference.py'') None new_config_loader)
       = Inr (PList [PStr ''/srv/model.pkl'', PStr ''/srv''])
   \<and> list_all (\<lambda>p. candidate_value predict_only_script ''/srv/model.pkl'' None p = None)
         load_functions
   \<and> fst (load_model (script_world predict_only_script) ''/srv/model.pkl'' None
              (Some ''/srv/inference.py'') None new_config_loader)
       = Inr (PObj 4 [])"
proof -
  let ?mp = "''/srv/model.pkl''"
  let ?v = "PList [PStr ''/srv/model.pkl'', PStr ''/srv'']"
  let ?pre = "[''load_model'', ''load'', ''initialize'']"
  have s0: "signature_of (fn0 (Inr PNone)) = Inr 0" by (simp add: fn0_def)
  have s1: "signature_of (fn1 ''path'' (\<lambda>x. Inr x)) = Inr 1" by (simp add: fn1_def)
  have s2: "signature_of (fn2 (\<lambda>p d. Inr (PList [p, d]))) = Inr 2" by (simp add: fn2_def)
  have d: "''/data'' \<noteq> []" by simp
  have c0: "call_load_candidate (fn0 (Inr PNone)) ?mp None = call (fn0 (Inr PNone)) [] []"
    using custom_load_search [of "fn0 (Inr PNone)" ?mp None] s0 by blast
  have c1: "call_load_candidate (fn1 ''path'' (\<lambda>x. Inr x)) ?mp None
              = call (fn1 ''path'' (\<lambda>x. Inr x)) [PStr ?mp] []"
    using custom_load_search [of "fn1 ''path'' (\<lambda>x. Inr x)" ?mp None] s1 by blast
  have c2: "call_load_candidate (fn2 (\<lambda>p d. Inr (PList [p, d]))) ?mp (Some ''/data'')
              = call (fn2 (\<lambda>p d. Inr (PList [p, d])))
                  [PStr ?mp, PStr (dir_or_dirname (Some ''/data'') ?mp)] []"
    using custom_load_search [of "fn2 (\<lambda>p d. Inr (PList [p, d]))" ?mp "Some ''/data''"] s2
    by blast
  have c3: "dir_or_dirname (Some ''/data'') ?mp = ''/data''"
    using custom_load_search [of _ ?mp _ "''/data''"] d by blast
  have h4: "map_of fallback_script ''load''
              = Some (fn1 ''path'' (\<lambda>x. Inl (RuntimeError ''corrupt file'')))
            \<and> call_load_candidate (fn1 ''path'' (\<lambda>x. Inl (RuntimeError ''corrupt file'')))
                 ?mp None = Inl (RuntimeError ''corrupt file'')"
    by (simp add: fallback_script_def call_load_candidate_def fn1_def load_call_args_def)
  have c4: "candidate_value fallback_script ?mp None ''load'' = None"
    using custom_load_search [of "fn1 ''path'' (\<lambda>x. Inl (RuntimeError ''corrupt file''))"
            ?mp None _ fallback_script "''load''" "RuntimeError ''corrupt file''"] h4
    by blast
  have h5: "load_functions = ?pre @ ''init'' # [''setup'']" by (simp add: load_functions_def)
  have h6: "list_all (\<lambda>p. candidate_value fallback_script ?mp None p = None) ?pre"
    by code_simp
  have h7: "candidate_value fallback_script ?mp None ''init'' = Some ?v" by code_simp
  have h8: "custom_inference (new_config_loader\<lparr>custom_inference := Some fallback_script\<rparr>)
              = Some fallback_script" by simp
  have c5: "try_custom_load ?mp None
              (new_config_loader\<lparr>custom_inference := Some fallback_script\<rparr>)
            = (True, new_config_loader\<lparr>custom_inference := Some fallback_script\<rparr>
                       \<lparr>model := ?v\<rparr>)"
    using custom_load_search [of _ ?mp None _ fallback_script _ _
            "new_config_loader\<lparr>custom_inference := Some fallback_script\<rparr>"
            ?pre "''init''" "[''setup'']" ?v] h5 h6 h7 h8
    by blast
  have h9: "manifest_path (script_world fallback_script) None = None
            \<and> existing (script_world fallback_script) (Some ''/srv/inference.py'')
                = Some ''/srv/inference.py''
            \<and> exec_module (script_world fallback_script) ''/srv/inference.py''
                = Inr fallback_script"
    by (simp add: manifest_path_def existing_def script_world_def plain_world_def)
  have c6: "load_model (script_world fallback_script) ?mp None (Some ''/srv/inference.py'')
              None new_config_loader
            = (Inr ?v, new_config_loader\<lparr>model := ?v, framework := PStr ''custom'',
                         model_path := Some ?mp, custom_inference := Some fallback_script,
                         use_custom_inference := True\<rparr>)"
    using custom_load_search [of _ ?mp None _ fallback_script _ _ _ ?pre "''init''"
            "[''setup'']" ?v "script_world fallback_script" "Some ''/srv/inference.py''"
            "''/srv/inference.py''" None new_config_loader] h5 h6 h7 h9
    by blast
  have h10: "list_all (\<lambda>p. candidate_value predict_only_script ?mp None p = None)
               load_functions" by code_simp
  have h11: "manifest_path (script_world predict_only_script) None = None
            \<and> existing (script_world predict_only_script) (Some ''/srv/inference.py'')
                = Some ''/srv/inference.py''
            \<and> exec_module (script_world predict_only_script) ''/srv/inference.py''
                = Inr predict_only_script"
    by (simp add: manifest_path_def existing_def script_world_def plain_world_def)
  have c7: "load_model (script_world predict_only_script) ?mp None
              (Some ''/srv/inference.py'') None new_config_loader
            = load_by_framework (script_world predict_only_script) ?mp None
                ((snd (try_custom_load ?mp None
                         (new_config_loader\<lparr>model_path := Some ?mp,
                            custom_inference := Some predict_only_script,
                            use_custom_inference := True\<rparr>)))
                   \<lparr>use_custom_inference := False\<rparr>)"
    using custom_load_search [of _ ?mp None _ predict_only_script _ _ _ _ _ _ _
            "script_world predict_only_script" "Some ''/srv/inference.py''"
            "''/srv/inference.py''" None new_config_loader] h10 h11
    by blast
  have e7: "fst (load_by_framework (script_world predict_only_script) ?mp None
                ((snd (try_custom_load ?mp None
                         (new_config_loader\<lparr>model_path := Some ?mp,
                            custom_inference := Some predict_only_script,
                            use_custom_inference := True\<rparr>)))
                   \<lparr>use_custom_inference := False\<rparr>)) = Inr (PObj 4 [])"
    by code_simp
  have e0: "call (fn0 (Inr PNone)) [] [] = Inr PNone" by (simp add: fn0_def)
  have e1: "call (fn1 ''path'' (\<lambda>x. Inr x)) [PStr ?mp] [] = Inr (PStr ?mp)"
    by (simp add: fn1_def)
  have e2: "call (fn2 (\<lambda>p d. Inr (PList [p, d]))) [PStr ?mp, PStr ''/data''] []
              = Inr (PList [PStr ?mp, PStr ''/data''])"
    by (simp add: fn2_def)
  show ?thesis
    using s0 s1 s2 c0 c1 c2 c3 h4 c4 h5 h6 h7 c5 c6 h10 c7 e7 e0 e1 e2
    by simp
qed

section \<open>Heuristic predict resolution: theorems\<close>

text \<open>
  Two facts about one step of the candidate search. When the signature of a candidate
  cannot be read (\<open>TypeError\<close>) and the direct call with the input alone raises
  anything but a \<open>TypeError\<close>, that exception is the result of the whole search. When
  reading the signature raises anything but a \<open>TypeError\<close>, the candidate is passed
  over without a direct call.
\<close>

lemma direct_call_error_escapes:
  "map_of ci n = Some f \<Longrightarrow> signature_of f = Inl e0 \<Longrightarrow> is_TypeError e0 \<Longrightarrow>
   call f [x] [] = Inl e1 \<Longrightarrow> \<not> is_TypeError e1 \<Longrightarrow>
   try_predict_names ci m x (n # rest) = Inl e1"
  by (simp add: call_by_signature_def)

lemma signature_error_skips:
  "map_of ci n = Some f \<Longrightarrow> signature_of f = Inl e0 \<Longrightarrow> \<not> is_TypeError e0 \<Longrightarrow>
   try_predict_names ci m x (n # rest) = try_predict_names ci m x rest"
  by (simp add: call_by_signature_def)

text \<open>
  Claim C9: when the signature of a candidate cannot be read, the search calls it with
  the input alone, then with the model and the input, and gives the candidate up only
  after both calls raised; no single raising call ends the resolution. In the code the
  handler around the call with the input alone catches \<open>TypeError\<close> only. Here the
  candidate \<open>predict\<close> raises a \<open>ValueError\<close> on the input alone, would answer the
  call with model and input, and is followed by a working candidate \<open>inference\<close>; the
  session's \<open>predict\<close> raises that \<open>ValueError\<close>.
\<close>

theorem direct_call_error_aborts_search:
  "signature_of opaque_predict = Inl (TypeError ''unsupported callable'')
   \<and> call opaque_predict [PStr ''good movie''] [] = Inl (ValueError ''bad input'')
   \<and> call opaque_predict [PObj 7 [], PStr ''good movie''] []
       = Inr (PStr ''called with model and input'')
   \<and> try_predict_names opaque_script (PObj 7 []) (PStr ''good movie'')
         [''inference'', ''run'', ''forward'', ''__call__'']
       = Inr (PStr ''inference result'')
   \<and> predict (plain_world [] []) (custom_session opaque_script) (PStr ''good movie'')
       = Inl (ValueError ''bad input'')"
  by code_simp

section \<open>Sessions loaded from a manifest: theorems\<close>

lemma load_by_framework_returns:
  "load_by_framework w mpath fw s = (Inr v, s') \<Longrightarrow> model s' = v \<and> framework s' \<noteq> PNone"
  by (auto simp: load_by_framework_def Let_def split: sum.splits option.splits)

lemma load_by_framework_raises:
  "load_by_framework w mpath fw s = (Inl e, s') \<Longrightarrow> model s' = model s"
  by (auto simp: load_by_framework_def Let_def split: sum.splits option.splits)

lemma load_from_config_returns:
  "load_from_config w cp d s = (Inr v, s') \<Longrightarrow>
   model s' = v \<and> use_custom_inference s' \<and> custom_inference s' \<noteq> None
   \<and> (\<exists>cd. read_config w cp = Inr (cd, model_config s'))"
  by (auto simp: load_from_config_def Let_def split: sum.splits prod.splits)

lemma read_config_with_schema:
  "validator_available w \<Longrightarrow> read_config w cp = Inr (cd, st) \<Longrightarrow> \<exists>c. st = ConfigModel c"
  by (cases "open_json_load w cp"; cases "validate_file w cp") (auto simp: read_config_def)

text \<open>
  With the schema available, a session that \<open>load_model\<close> loaded from a manifest
  predicts by the candidate search: the stored configuration is the validated object,
  which the test for a dict at the head of \<open>_try_custom_predict\<close> rejects.
\<close>

lemma manifest_session_with_schema:
  assumes "validator_available w" and "manifest_path w mdir = Some (cp, d)"
    and "load_model w mpath fw cip mdir s = (Inr v, s')" and "v \<noteq> PNone"
  shows "predict w s' x = try_predict_names (the_module s') v x predict_functions"
proof -
  from assms(2,3) have l: "load_from_config w cp d (s\<lparr>model_path := Some mpath\<rparr>) = (Inr v, s')"
    by (simp add: load_model_def)
  from load_from_config_returns [OF l] obtain cd where
    m: "model s' = v" and u: "use_custom_inference s'" and c: "custom_inference s' \<noteq> None"
    and r: "read_config w cp = Inr (cd, model_config s')" by blast
  from read_config_with_schema [OF assms(1) r] obtain mc where "model_config s' = ConfigModel mc"
    by blast
  then show ?thesis using m u c assms(4)
    by (simp add: predict_def try_custom_predict_def)
qed

text \<open>
  Claim C1: a session loaded from a manifest predicts with the declared predict function
  and argument tokens only, and never enters the search over \<open>predict\<close>,
  \<open>inference\<close>, \<open>run\<close>, \<open>forward\<close>, \<open>__call__\<close>. The deployment below has a valid
  manifest that declares the predict function \<open>classify\<close>, which the script defines.
  With the schema available the load succeeds, and \<open>predict\<close> is the candidate search,
  which finds none of its five names and raises; without the schema the same deployment
  calls \<open>classify\<close>.
\<close>

theorem manifest_session_predicts_by_heuristics:
  "manifest_path (zip_world True ''model_path'' ''input_data'') (Some ''/app/user_model'')
     = Some (''/app/user_model/model_config.json'', ''/app/user_model'')
   \<and> fst (zip_load True ''model_path'' ''input_data'') = Inr (PObj 7 [])
   \<and> ''classify'' \<in> fst ` set (script ''input_data'')
   \<and> predict (zip_world True ''model_path'' ''input_data'')
         (snd (zip_load True ''model_path'' ''input_data'')) (PStr ''good movie'')
       = try_predict_names (script ''input_data'') (PObj 7 []) (PStr ''good movie'')
           predict_functions
   \<and> predict (zip_world True ''model_path'' ''input_data'')
         (snd (zip_load True ''model_path'' ''input_data'')) (PStr ''good movie'')
       = Inl no_predict_function
   \<and> predict (zip_world False ''model_path'' ''input_data'')
         (snd (zip_load False ''model_path'' ''input_data'')) (PStr ''good movie'')
       = Inr (PList [PStr ''label'', PStr ''good movie''])"
  by code_simp

text \<open>
  Claim C5 says that after every \<open>load_model\<close>, returning or raising, the handle is set
  exactly when the framework tag is set, and that a failed load leaves the prior handle
  in place. A fresh session whose pickle file is corrupt ends with the tag \<open>sklearn\<close>
  and no handle, in both variants of the loader. In the deployed variant a loaded
  session loses its handle when a custom script's \<open>load_model\<close> returns \<open>None\<close> and
  the framework detection then fails.
\<close>

theorem load_model_partial_state_counterexample:
  "fst (load_model_basic broken_pickle_world ''model.pkl'' None None new_model_loader)
     = Inl (ValueError ''Failed to load sklearn model: invalid load key'')
   \<and> model (snd (load_model_basic broken_pickle_world ''model.pkl'' None None
                   new_model_loader)) = PNone
   \<and> framework (snd (load_model_basic broken_pickle_world ''model.pkl'' None None
                       new_model_loader)) = PStr ''sklearn''
   \<and> model (snd (load_model broken_pickle_world ''model.pkl'' None None None
                   new_config_loader)) = PNone
   \<and> framework (snd (load_model broken_pickle_world ''model.pkl'' None None None
                       new_config_loader)) = PStr ''sklearn''
   \<and> fst (load_model (script_world none_script) ''/srv/model.bin'' None
             (Some ''/srv/inference.py'') None
             (new_config_loader\<lparr>model := PObj 4 [], framework := PStr ''sklearn''\<rparr>))
       = Inl (ValueError ''Could not detect framework for: /srv/model.bin'')
   \<and> model (snd (load_model (script_world none_script) ''/srv/model.bin'' None
             (Some ''/srv/inference.py'') None
             (new_config_loader\<lparr>model := PObj 4 [], framework := PStr ''sklearn''\<rparr>)))
       = PNone"
  by code_simp

text \<open>
  Claim C5, amended: when \<open>load_model\<close> returns, the session's handle is the returned
  model, and in the loader of \<open>apps/api\<close> the framework tag is set; when \<open>load_model\<close>
  of \<open>apps/api\<close> raises, the prior handle (or the unloaded state of the handle) is
  intact, while the framework tag may already name the framework whose loading failed.
\<close>

theorem load_model_state_after:
  "(load_model_basic w mpath fw cip s = (Inr v, s') \<longrightarrow> model s' = v \<and> framework s' \<noteq> PNone)
   \<and> (load_model_basic w mpath fw cip s = (Inl e, s') \<longrightarrow> model s' = model s)
   \<and> (load_model w mpath fw cip mdir t = (Inr v, t') \<longrightarrow> model t' = v)"
proof -
  have basic_ok: "model s' = v \<and> framework s' \<noteq> PNone"
    if "load_model_basic w mpath fw cip s = (Inr v, s')"
    using that
    by (auto simp: load_model_basic_def Let_def
        split: option.splits sum.splits dest: load_by_framework_returns)
  have basic_err: "model s' = model s"
    if "load_model_basic w mpath fw cip s = (Inl e, s')"
    using that
    by (auto simp: load_model_basic_def Let_def
        split: option.splits sum.splits dest: load_by_framework_raises)
  have full_ok: "model t' = v"
    if "load_model w mpath fw cip mdir t = (Inr v, t')"
    using that
    by (auto simp: load_model_def Let_def
        split: option.splits sum.splits prod.splits bool.splits
        dest: load_by_framework_returns load_from_config_returns)
  show ?thesis using basic_ok basic_err full_ok by blast
qed

theorem load_model_state_after_witness:
  "fst (load_model_basic (plain_world [''model.pkl''] []) ''model.pkl'' None None
          new_model_loader) = Inr (PObj 4 [])
   \<and> model (snd (load_model_basic (plain_world [''model.pkl''] []) ''model.pkl'' None None
                   new_model_loader)) = PObj 4 []
   \<and> framework (snd (load_model_basic (plain_world [''model.pkl''] []) ''model.pkl'' None None
                       new_model_loader)) \<noteq> PNone
   \<and> fst (load_model_basic broken_pickle_world ''model.pkl'' None None sklearn_loader)
       = Inl (ValueError ''Failed to load sklearn model: invalid load key'')
   \<and> model (snd (load_model_basic broken_pickle_world ''model.pkl'' None None sklearn_loader))
       = PObj 4 []
   \<and> fst (zip_load False ''model_path'' ''input_data'') = Inr (PObj 7 [])
   \<and> model (snd (zip_load False ''model_path'' ''input_data'')) = PObj 7 []"
proof -
  let ?a = "load_model_basic (plain_world [''model.pkl''] []) ''model.pkl'' None None
              new_model_loader"
  let ?b = "load_model_basic broken_pickle_world ''model.pkl'' None None sklearn_loader"
  let ?c = "load_model (zip_world False ''model_path'' ''input_data'')
              ''/app/user_model/model.pkl'' None None (Some ''/app/user_model'')
              new_config_loader"
  have fa: "fst ?a = Inr (PObj 4 [])" by code_simp
  have fb: "fst ?b = Inl (ValueError ''Failed to load sklearn model: invalid load key'')"
    by code_simp
  have fc: "fst ?c = Inr (PObj 7 [])" by code_simp
  have ha: "?a = (Inr (PObj 4 []), snd ?a)" using fa by (simp add: prod_eq_iff)
  have hb: "?b = (Inl (ValueError ''Failed to load sklearn model: invalid load key''), snd ?b)"
    using fb by (simp add: prod_eq_iff)
  have hc: "?c = (Inr (PObj 7 []), snd ?c)" using fc by (simp add: prod_eq_iff)
  have ca: "model (snd ?a) = PObj 4 [] \<and> framework (snd ?a) \<noteq> PNone"
    using load_model_state_after [where w = "plain_world [''model.pkl''] []"
            and mpath = "''model.pkl''" and fw = None and cip = None
            and s = new_model_loader and v = "PObj 4 []" and s' = "snd ?a"] ha
    by blast
  have cb: "model (snd ?b) = model sklearn_loader"
    using load_model_state_after [where w = broken_pickle_world
            and mpath = "''model.pkl''" and fw = None and cip = None and s = sklearn_loader
            and e = "ValueError ''Failed to load sklearn model: invalid load key''"
            and s' = "snd ?b"] hb
    by blast
  have cc: "model (snd ?c) = PObj 7 []"
    using load_model_state_after [where w = "zip_world False ''model_path'' ''input_data''"
            and mpath = "''/app/user_model/model.pkl''" and fw = None and cip = None
            and mdir = "Some ''/app/user_model''" and t = new_config_loader
            and v = "PObj 7 []" and t' = "snd ?c"] hc
    by blast
  show ?thesis
    using fa fb fc ca cb cc by (simp add: zip_load_def sklearn_loader_def)
qed

section \<open>The manifest tier of loading: theorems\<close>

lemma load_model_manifest:
  "manifest_path w mdir = Some (cp, d) \<Longrightarrow>
   load_model w mpath fw cip mdir s = load_from_config w cp d (s\<lparr>model_path := Some mpath\<rparr>)"
  by (simp add: load_model_def)

lemma config_error_ValueError: "\<exists>msg. config_error cp e = ValueError msg"
  by (cases e) (simp_all add: config_error_def)

lemma load_from_config_read_fails:
  "read_config w cp = Inl e \<Longrightarrow> load_from_config w cp d s = (Inl (config_error cp e), s)"
  by (simp add: load_from_config_def)

lemma load_from_config_entry_fails:
  "read_config w cp = Inr (cd, st) \<Longrightarrow> load_entry_point w d cd = Inl e \<Longrightarrow>
   load_from_config w cp d s = (Inl e, s\<lparr>model_config := st\<rparr>)"
  by (simp add: load_from_config_def)

lemma load_from_config_resolve_fails:
  "read_config w cp = Inr (cd, st) \<Longrightarrow> load_entry_point w d cd = Inr m \<Longrightarrow>
   resolve_load_call m d cd = Inl e \<Longrightarrow>
   fst (load_from_config w cp d s) = Inl e"
  by (simp add: load_from_config_def)

lemma load_from_config_call_fails:
  "read_config w cp = Inr (cd, st) \<Longrightarrow> load_entry_point w d cd = Inr m \<Longrightarrow>
   resolve_load_call m d cd = Inr (lf, kw) \<Longrightarrow> call lf [] kw = Inl e \<Longrightarrow>
   fst (load_from_config w cp d s) = Inl e"
  by (simp add: load_from_config_def)

lemma load_from_config_success:
  "fst (load_from_config w cp d s) = Inr v \<Longrightarrow>
   \<exists>cd st m lf kw. read_config w cp = Inr (cd, st) \<and> load_entry_point w d cd = Inr m
      \<and> resolve_load_call m d cd = Inr (lf, kw) \<and> call lf [] kw = Inr v"
  by (auto simp: load_from_config_def Let_def split: sum.splits prod.splits)

lemma read_config_open_fails: "open_json_load w cp = Inl e \<Longrightarrow> read_config w cp = Inl e"
  by (simp add: read_config_def)

lemma map_of_missing: "f \<notin> fst ` set kvs \<Longrightarrow> map_of kvs f = None"
  by (simp add: map_of_eq_None_iff)

lemma missing_fields_lists:
  "missing_fields fs (PDict kvs) = Inr (filter (\<lambda>f. f \<notin> fst ` set kvs) fs)"
  by (induction fs) simp_all

lemma schema_requires_fields:
  assumes "f \<in> set required_fields" and "f \<notin> fst ` set kvs"
  shows "model_config_errors kvs \<noteq> []"
proof -
  have none: "map_of kvs f = None" using assms(2) by (rule map_of_missing)
  from assms(1) consider "f = ''entry_point''" | "f = ''load''" | "f = ''predict''"
    | "f = ''model_file''" by (auto simp: required_fields_def)
  then show ?thesis
  proof cases
    case 1
    with none have "errs (field_entry_point kvs) \<noteq> []"
      by (simp add: field_entry_point_def field_str_def errs_def)
    then show ?thesis by (simp add: model_config_errors_def)
  next
    case 2
    with none have "errs (field_function kvs ''load'') \<noteq> []"
      by (simp add: field_function_def errs_def)
    then show ?thesis by (simp add: model_config_errors_def)
  next
    case 3
    with none have "errs (field_function kvs ''predict'') \<noteq> []"
      by (simp add: field_function_def errs_def)
    then show ?thesis by (simp add: model_config_errors_def)
  next
    case 4
    with none have "errs (field_str kvs ''model_file'') \<noteq> []"
      by (simp add: field_str_def errs_def)
    then show ?thesis by (simp add: model_config_errors_def)
  qed
qed

lemma validate_file_errors:
  "open_json_load w cp = Inr (PDict kvs) \<Longrightarrow> model_config_errors kvs \<noteq> [] \<Longrightarrow>
   validate_file w cp
     = Inl (ValueError (''Invalid model_config.json: ''
                        @ str_join [CHR 0x0A] (model_config_errors kvs)))"
  by (simp add: validate_file_def parse_model_config_def)

lemma read_config_missing_field:
  assumes "open_json_load w cp = Inr (PDict kvs)" and "f \<in> set required_fields"
    and "f \<notin> fst ` set kvs"
  shows "\<exists>e. read_config w cp = Inl e"
proof (cases "validator_available w")
  case True
  then show ?thesis
    using assms validate_file_errors [OF assms(1) schema_requires_fields [OF assms(2,3)]]
    by (simp add: read_config_def)
next
  case False
  have "filter (\<lambda>f. f \<notin> fst ` set kvs) required_fields \<noteq> []"
    using assms(2,3) by (auto simp: filter_empty_conv)
  then show ?thesis
    using False assms(1) by (simp add: read_config_def missing_fields_lists)
qed

lemma load_entry_point_missing:
  "py_getitem cd ''entry_point'' = Inr (PStr ep) \<Longrightarrow> \<not> path_exists w (path_join d ep) \<Longrightarrow>
   load_entry_point w d cd = Inl (FileNotFoundError (''Entry point file not found: '' @ ep))"
  by (simp add: load_entry_point_def fmt_str_def)

lemma resolve_load_call_missing:
  "py_getitem cd ''load'' = Inr lc \<Longrightarrow> function_name lc = Inr (PStr n) \<Longrightarrow>
   py_get lc ''args'' (PList []) = Inr a \<Longrightarrow> str_items a = Inr items \<Longrightarrow>
   map_of m n = None \<Longrightarrow>
   \<exists>msg. resolve_load_call m d cd = Inl (AttributeError msg)"
  by (simp add: resolve_load_call_def)

lemma resolve_load_call_no_name:
  assumes "py_getitem cd ''load'' = Inr (PDict lkvs)" and "map_of lkvs ''name'' = None"
    and "map_of lkvs ''function'' = None"
  shows "isl (resolve_load_call m d cd)"
proof -
  have fn: "function_name (PDict lkvs) = Inr PNone"
    using assms(2,3) by (simp add: function_name_def dict_get_def)
  show ?thesis
    using assms(1) fn
    by (cases "str_items (dict_get lkvs ''args'' (PList []))")
       (simp_all add: resolve_load_call_def)
qed

lemma load_from_config_no_name:
  assumes "open_json_load w cp = Inr (PDict kvs)" and "map_of kvs ''load'' = Some (PDict lkvs)"
    and "map_of lkvs ''name'' = None" and "map_of lkvs ''function'' = None"
  shows "isl (fst (load_from_config w cp d s))"
proof (cases "read_config w cp")
  case (Inl e)
  then show ?thesis by (simp add: load_from_config_read_fails)
next
  case (Inr r)
  obtain cd st where r: "r = (cd, st)" by (cases r)
  have cd: "cd = PDict kvs"
    using Inr r assms(1)
    by (auto simp: read_config_def split: if_splits sum.splits
        elim!: bindE.elims)
  show ?thesis
  proof (cases "load_entry_point w d cd")
    case (Inl e)
    then show ?thesis using Inr r by (simp add: load_from_config_entry_fails)
  next
    case m: (Inr m)
    have "py_getitem cd ''load'' = Inr (PDict lkvs)" using cd assms(2) by simp
    from resolve_load_call_no_name [OF this assms(3,4), of m d]
    obtain e where "resolve_load_call m d cd = Inl e"
      by (cases "resolve_load_call m d cd") simp_all
    then show ?thesis
      using Inr r m load_from_config_resolve_fails [of w cp cd st d m e s] by simp
  qed
qed

text \<open>
  Claim C2: when \<open>model_config.json\<close> is present in the model directory, every failure
  of the manifest tier raises and no other tier is tried. With the manifest present
  \<open>load_model\<close> is \<open>_load_from_config\<close>, whatever that returns or raises, and does
  not depend on the framework hint or the custom script path; a document that cannot be
  read or parsed, a missing required field, a \<open>load\<close> entry without a name, a missing
  entry point file, a load function that the script does not define and an exception of
  the load function each make it raise; and when it returns a model, that model is what
  the declared load function returned.
\<close>

theorem manifest_failure_is_fatal:
  "(manifest_path w mdir = Some (cp, d)
      \<longrightarrow> load_model w mpath fw cip mdir s
            = load_from_config w cp d (s\<lparr>model_path := Some mpath\<rparr>)
          \<and> load_model w mpath fw cip mdir s = load_model w mpath fw' cip' mdir s)
   \<and> (manifest_path w mdir = Some (cp, d) \<and> open_json_load w cp = Inl e
      \<longrightarrow> load_model w mpath fw cip mdir s
            = (Inl (config_error cp e), s\<lparr>model_path := Some mpath\<rparr>)
          \<and> (\<exists>msg. config_error cp e = ValueError msg))
   \<and> (manifest_path w mdir = Some (cp, d) \<and> open_json_load w cp = Inr (PDict kvs)
        \<and> f \<in> set required_fields \<and> f \<notin> fst ` set kvs
      \<longrightarrow> (\<exists>msg. load_model w mpath fw cip mdir s
                   = (Inl (ValueError msg), s\<lparr>model_path := Some mpath\<rparr>)))
   \<and> (manifest_path w mdir = Some (cp, d) \<and> open_json_load w cp = Inr (PDict kvs)
        \<and> map_of kvs ''load'' = Some (PDict lkvs)
        \<and> map_of lkvs ''name'' = None \<and> map_of lkvs ''function'' = None
      \<longrightarrow> isl (fst (load_model w mpath fw cip mdir s)))
   \<and> (manifest_path w mdir = Some (cp, d) \<and> read_config w cp = Inr (cd, st)
        \<and> py_getitem cd ''entry_point'' = Inr (PStr ep) \<and> \<not> path_exists w (path_join d ep)
      \<longrightarrow> fst (load_model w mpath fw cip mdir s)
            = Inl (FileNotFoundError (''Entry point file not found: '' @ ep)))
   \<and> (manifest_path w mdir = Some (cp, d) \<and> read_config w cp = Inr (cd, st)
        \<and> load_entry_point w d cd = Inr m \<and> py_getitem cd ''load'' = Inr lc
        \<and> function_name lc = Inr (PStr n) \<and> py_get lc ''args'' (PList []) = Inr a
        \<and> str_items a = Inr items \<and> map_of m n = None
      \<longrightarrow> (\<exists>msg. fst (load_model w mpath fw cip mdir s) = Inl (AttributeError msg)))
   \<and> (manifest_path w mdir = Some (cp, d) \<and> read_config w cp = Inr (cd, st)
        \<and> load_entry_point w d cd = Inr m \<and> resolve_load_call m d cd = Inr (lf, kw)
        \<and> call lf [] kw = Inl e
      \<longrightarrow> fst (load_model w mpath fw cip mdir s) = Inl e)
   \<and> (manifest_path w mdir = Some (cp, d) \<and> fst (load_model w mpath fw cip mdir s) = Inr v
      \<longrightarrow> (\<exists>cd st m lf kw. read_config w cp = Inr (cd, st)
             \<and> load_entry_point w d cd = Inr m \<and> resolve_load_call m d cd = Inr (lf, kw)
             \<and> call lf [] kw = Inr v))"
proof -
  let ?s = "s\<lparr>model_path := Some mpath\<rparr>"
  have tier: "load_model w mpath fw cip mdir s = load_from_config w cp d ?s
              \<and> load_model w mpath fw cip mdir s = load_model w mpath fw' cip' mdir s"
    if "manifest_path w mdir = Some (cp, d)"
    using that by (simp add: load_model_manifest)
  have unreadable: "load_model w mpath fw cip mdir s = (Inl (config_error cp e), ?s)
                    \<and> (\<exists>msg. config_error cp e = ValueError msg)"
    if "manifest_path w mdir = Some (cp, d)" "open_json_load w cp = Inl e"
    using that config_error_ValueError [of cp e]
    by (simp add: load_model_manifest load_from_config_read_fails read_config_open_fails)
  have field: "\<exists>msg. load_model w mpath fw cip mdir s = (Inl (ValueError msg), ?s)"
    if "manifest_path w mdir = Some (cp, d)" "open_json_load w cp = Inr (PDict kvs)"
       "f \<in> set required_fields" "f \<notin> fst ` set kvs"
  proof -
    from read_config_missing_field [OF that(2,3,4)] obtain e0 where
      "read_config w cp = Inl e0" by blast
    then have "load_model w mpath fw cip mdir s = (Inl (config_error cp e0), ?s)"
      using that(1) by (simp add: load_model_manifest load_from_config_read_fails)
    then show ?thesis using config_error_ValueError [of cp e0] by auto
  qed
  have name: "isl (fst (load_model w mpath fw cip mdir s))"
    if "manifest_path w mdir = Some (cp, d)" "open_json_load w cp = Inr (PDict kvs)"
       "map_of kvs ''load'' = Some (PDict lkvs)" "map_of lkvs ''name'' = None"
       "map_of lkvs ''function'' = None"
    using that load_from_config_no_name [of w cp kvs lkvs d ?s]
    by (simp add: load_model_manifest)
  have entry: "fst (load_model w mpath fw cip mdir s)
                 = Inl (FileNotFoundError (''Entry point file not found: '' @ ep))"
    if "manifest_path w mdir = Some (cp, d)" "read_config w cp = Inr (cd, st)"
       "py_getitem cd ''entry_point'' = Inr (PStr ep)" "\<not> path_exists w (path_join d ep)"
    using that load_entry_point_missing [of cd ep w d]
    by (simp add: load_model_manifest load_from_config_entry_fails)
  have func: "\<exists>msg. fst (load_model w mpath fw cip mdir s) = Inl (AttributeError msg)"
    if "manifest_path w mdir = Some (cp, d)" "read_config w cp = Inr (cd, st)"
       "load_entry_point w d cd = Inr m" "py_getitem cd ''load'' = Inr lc"
       "function_name lc = Inr (PStr n)" "py_get lc ''args'' (PList []) = Inr a"
       "str_items a = Inr items" "map_of m n = None"
  proof -
    from resolve_load_call_missing [OF that(4,5,6,7,8), of d] obtain msg where
      "resolve_load_call m d cd = Inl (AttributeError msg)" by blast
    then show ?thesis
      using that(1,2,3) load_from_config_resolve_fails [of w cp cd st d m _ ?s]
      by (simp add: load_model_manifest)
  qed
  have raised: "fst (load_model w mpath fw cip mdir s) = Inl e"
    if "manifest_path w mdir = Some (cp, d)" "read_config w cp = Inr (cd, st)"
       "load_entry_point w d cd = Inr m" "resolve_load_call m d cd = Inr (lf, kw)"
       "call lf [] kw = Inl e"
    using that load_from_config_call_fails [of w cp cd st d m lf kw e ?s]
    by (simp add: load_model_manifest)
  have ok: "\<exists>cd st m lf kw. read_config w cp = Inr (cd, st)
             \<and> load_entry_point w d cd = Inr m \<and> resolve_load_call m d cd = Inr (lf, kw)
             \<and> call lf [] kw = Inr v"
    if "manifest_path w mdir = Some (cp, d)" "fst (load_model w mpath fw cip mdir s) = Inr v"
    using that load_from_config_success [of w cp d ?s v]
    by (simp add: load_model_manifest)
  show ?thesis
    using tier unreadable field name entry func raised ok by blast
qed

theorem manifest_failure_is_fatal_witness:
  "manifest_path (zip_world False ''model_path'' ''input_data'') (Some ''/app/user_model'')
     = Some (''/app/user_model/model_config.json'', ''/app/user_model'')
   \<and> load_model (zip_world False ''model_path'' ''input_data'') ''/app/user_model/model.pkl''
         None None (Some ''/app/user_model'') new_config_loader
       = load_model (zip_world False ''model_path'' ''input_data'') ''/app/user_model/model.pkl''
           (Some ''pytorch'') (Some ''/app/user_model/inference.py'') (Some ''/app/user_model'')
           new_config_loader
   \<and> fst (zip_load False ''model_path'' ''input_data'') = Inr (PObj 7 [])
   \<and> fst (load_model
            (deploy_world True (Inl (JSONDecodeError ''Expecting value'')) zip_files [])
            ''/app/user_model/model.pkl'' None None (Some ''/app/user_model'') new_config_loader)
       = Inl (ValueError ''Invalid JSON in model_config.json: Expecting value'')
   \<and> ''model_file'' \<in> set required_fields
   \<and> isl (fst (load_model
            (deploy_world False (Inr manifest_without_model_file) zip_files
               (script ''input_data''))
            ''/app/user_model/model.pkl'' None None (Some ''/app/user_model'') new_config_loader))
   \<and> map_of manifest_without_load_name ''load'' = Some (PDict nameless_load)
   \<and> map_of nameless_load ''name'' = None \<and> map_of nameless_load ''function'' = None
   \<and> isl (fst (load_model
            (deploy_world True (Inr (PDict manifest_without_load_name)) zip_files
               (script ''input_data''))
            ''/app/user_model/model.pkl'' None None (Some ''/app/user_model'') new_config_loader))
   \<and> \<not> path_exists
         (deploy_world False (Inr (manifest_doc ''model_path'' ''input_data''))
            [''/app/user_model/model.pkl'', ''/app/user_model/model_config.json''] [])
         (path_join ''/app/user_model'' ''inference.py'')
   \<and> fst (load_model
            (deploy_world False (Inr (manifest_doc ''model_path'' ''input_data''))
               [''/app/user_model/model.pkl'', ''/app/user_model/model_config.json''] [])
            ''/app/user_model/model.pkl'' None None (Some ''/app/user_model'') new_config_loader)
       = Inl (FileNotFoundError ''Entry point file not found: inference.py'')
   \<and> map_of predict_only_script ''load_model'' = None
   \<and> isl (fst (load_model
            (deploy_world False (Inr (manifest_doc ''model_path'' ''input_data'')) zip_files
               predict_only_script)
            ''/app/user_model/model.pkl'' None None (Some ''/app/user_model'') new_config_loader))
   \<and> fst (load_model
            (deploy_world False (Inr (manifest_doc ''model_path'' ''input_data'')) zip_files
               raising_script)
            ''/app/user_model/model.pkl'' None None (Some ''/app/user_model'') new_config_loader)
       = Inl (RuntimeError ''cannot unpickle'')"
proof -
  let ?cp = "''/app/user_model/model_config.json''"
  let ?d = "''/app/user_model''"
  let ?mp = "''/app/user_model/model.pkl''"
  let ?doc = "manifest_doc ''model_path'' ''input_data''"
  let ?st = "ConfigData ?doc"
  let ?lc = "PDict [(''name'', PStr ''load_model''), (''args'', PList [PStr ''model_path''])]"
  let ?W0 = "zip_world False ''model_path'' ''input_data''"
  let ?W1 = "deploy_world True (Inl (JSONDecodeError ''Expecting value'')) zip_files []"
  let ?W2 = "deploy_world False (Inr manifest_without_model_file) zip_files
               (script ''input_data'')"
  let ?W3 = "deploy_world True (Inr (PDict manifest_without_load_name)) zip_files
               (script ''input_data'')"
  let ?W4 = "deploy_world False (Inr ?doc)
               [''/app/user_model/model.pkl'', ''/app/user_model/model_config.json''] []"
  let ?W5 = "deploy_world False (Inr ?doc) zip_files predict_only_script"
  let ?W6 = "deploy_world False (Inr ?doc) zip_files raising_script"
  have man: "manifest_path (deploy_world b doc zip_files m) (Some ?d) = Some (?cp, ?d)"
    for b doc m
    by (simp add: manifest_path_def existing_def deploy_world_def plain_world_def
        zip_files_def path_join_def)
  have mp0: "manifest_path ?W0 (Some ?d) = Some (?cp, ?d)" by (simp add: zip_world_def man)
  have mp4: "manifest_path ?W4 (Some ?d) = Some (?cp, ?d)"
    by (simp add: manifest_path_def existing_def deploy_world_def plain_world_def path_join_def)
  have rc: "read_config (deploy_world False (Inr ?doc) files m) ?cp = Inr (?doc, ?st)"
    for files m
    by (simp add: read_config_def deploy_world_def plain_world_def manifest_doc_def
        manifest_items_def required_fields_def)
  have ep: "load_entry_point (deploy_world False (Inr ?doc) zip_files m) ?d ?doc = Inr m" for m
    by (simp add: load_entry_point_def deploy_world_def plain_world_def manifest_doc_def
        manifest_items_def zip_files_def path_join_def)
  \<comment> \<open>the tier is taken whatever the other arguments are\<close>
  have c0: "load_model ?W0 ?mp None None (Some ?d) new_config_loader
              = load_from_config ?W0 ?cp ?d (new_config_loader\<lparr>model_path := Some ?mp\<rparr>)
            \<and> load_model ?W0 ?mp None None (Some ?d) new_config_loader
              = load_model ?W0 ?mp (Some ''pytorch'') (Some ''/app/user_model/inference.py'')
                  (Some ?d) new_config_loader"
    by (rule manifest_failure_is_fatal [where w = ?W0 and mdir = "Some ?d" and cp = ?cp
            and d = ?d and mpath = ?mp and fw = None and cip = None and s = new_config_loader
            and fw' = "Some ''pytorch''" and cip' = "Some ''/app/user_model/inference.py''",
            THEN conjunct1, THEN mp])
       (use mp0 in blast)
  have f0: "fst (zip_load False ''model_path'' ''input_data'') = Inr (PObj 7 [])" by code_simp
  \<comment> \<open>invalid JSON\<close>
  have h1: "open_json_load ?W1 ?cp = Inl (JSONDecodeError ''Expecting value'')"
    by (simp add: deploy_world_def plain_world_def)
  have c1: "load_model ?W1 ?mp None None (Some ?d) new_config_loader
              = (Inl (config_error ?cp (JSONDecodeError ''Expecting value'')),
                 new_config_loader\<lparr>model_path := Some ?mp\<rparr>)
            \<and> (\<exists>msg. config_error ?cp (JSONDecodeError ''Expecting value'') = ValueError msg)"
    by (rule manifest_failure_is_fatal [where w = ?W1 and mdir = "Some ?d" and cp = ?cp
            and d = ?d and mpath = ?mp and fw = None and cip = None and s = new_config_loader
            and e = "JSONDecodeError ''Expecting value''", THEN conjunct2, THEN conjunct1, THEN mp])
       (use man [of True _ "[]"] h1 in blast)
  \<comment> \<open>a missing required field\<close>
  let ?kvs2 = "filter (\<lambda>kv. fst kv \<noteq> ''model_file'')
                 (manifest_items ''model_path'' ''input_data'')"
  have h2: "open_json_load ?W2 ?cp = Inr (PDict ?kvs2)
            \<and> ''model_file'' \<in> set required_fields
            \<and> ''model_file'' \<notin> fst ` set ?kvs2"
    by (simp add: deploy_world_def plain_world_def manifest_without_model_file_def
        required_fields_def manifest_items_def)
  have c2: "\<exists>msg. load_model ?W2 ?mp None None (Some ?d) new_config_loader
              = (Inl (ValueError msg), new_config_loader\<lparr>model_path := Some ?mp\<rparr>)"
    by (rule manifest_failure_is_fatal [where w = ?W2 and mdir = "Some ?d" and cp = ?cp
            and d = ?d and mpath = ?mp and fw = None and cip = None and s = new_config_loader
            and kvs = ?kvs2 and f = "''model_file''", THEN conjunct2, THEN conjunct2, THEN conjunct1, THEN mp])
       (use man [of False _ "script ''input_data''"] h2 in blast)
  \<comment> \<open>a load entry without a name\<close>
  have h3: "open_json_load ?W3 ?cp = Inr (PDict manifest_without_load_name)
            \<and> map_of manifest_without_load_name ''load'' = Some (PDict nameless_load)
            \<and> map_of nameless_load ''name'' = None \<and> map_of nameless_load ''function'' = None"
    by (simp add: deploy_world_def plain_world_def manifest_without_load_name_def
        nameless_load_def manifest_items_def)
  have c3: "isl (fst (load_model ?W3 ?mp None None (Some ?d) new_config_loader))"
    by (rule manifest_failure_is_fatal [where w = ?W3 and mdir = "Some ?d" and cp = ?cp
            and d = ?d and mpath = ?mp and fw = None and cip = None and s = new_config_loader
            and kvs = manifest_without_load_name and lkvs = nameless_load, THEN conjunct2, THEN conjunct2, THEN conjunct2, THEN conjunct1, THEN mp])
       (use man [of True _ "script ''input_data''"] h3 in blast)
  \<comment> \<open>a missing entry point\<close>
  have h4: "py_getitem ?doc ''entry_point'' = Inr (PStr ''inference.py'')
            \<and> \<not> path_exists ?W4 (path_join ?d ''inference.py'')"
    by (simp add: manifest_doc_def manifest_items_def deploy_world_def plain_world_def
        path_join_def)
  have c4: "fst (load_model ?W4 ?mp None None (Some ?d) new_config_loader)
            = Inl (FileNotFoundError (''Entry point file not found: '' @ ''inference.py''))"
    by (rule manifest_failure_is_fatal [where w = ?W4 and mdir = "Some ?d" and cp = ?cp
            and d = ?d and mpath = ?mp and fw = None and cip = None and s = new_config_loader
            and cd = ?doc and st = ?st and ep = "''inference.py''", THEN conjunct2, THEN conjunct2, THEN conjunct2, THEN conjunct2, THEN conjunct1, THEN mp])
       (use mp4 rc h4 in blast)
  \<comment> \<open>a load function the script does not define\<close>
  let ?its = "[''model_path'']"
  have h5: "py_getitem ?doc ''load'' = Inr ?lc \<and> function_name ?lc = Inr (PStr ''load_model'')
            \<and> py_get ?lc ''args'' (PList []) = Inr (PList [PStr ''model_path''])
            \<and> str_items (PList [PStr ''model_path'']) = Inr ?its
            \<and> map_of predict_only_script ''load_model'' = None"
    by (simp add: manifest_doc_def manifest_items_def function_name_def dict_get_def
        predict_only_script_def)
  have c5: "\<exists>msg. fst (load_model ?W5 ?mp None None (Some ?d) new_config_loader)
              = Inl (AttributeError msg)"
    by (rule manifest_failure_is_fatal [where w = ?W5 and mdir = "Some ?d" and cp = ?cp
            and d = ?d and mpath = ?mp and fw = None and cip = None and s = new_config_loader
            and cd = ?doc and st = ?st and m = predict_only_script and lc = ?lc
            and n = "''load_model''" and a = "PList [PStr ''model_path'']"
            and items = ?its, THEN conjunct2, THEN conjunct2, THEN conjunct2, THEN conjunct2, THEN conjunct2, THEN conjunct1, THEN mp])
       (use man rc ep h5 in blast)
  \<comment> \<open>a load function that raises\<close>
  let ?lf = "fn1 ''model_path'' (\<lambda>x. Inl (RuntimeError ''cannot unpickle''))"
  let ?kw = "[(''model_path'', PStr ''/app/user_model/model.pkl'')]"
  have h6: "resolve_load_call raising_script ?d ?doc = Inr (?lf, ?kw)
            \<and> call ?lf [] ?kw = Inl (RuntimeError ''cannot unpickle'')"
    by (simp add: resolve_load_call_def manifest_doc_def manifest_items_def function_name_def
        dict_get_def raising_script_def path_join_def fn1_def)
  have c6: "fst (load_model ?W6 ?mp None None (Some ?d) new_config_loader)
            = Inl (RuntimeError ''cannot unpickle'')"
    by (rule manifest_failure_is_fatal [where w = ?W6 and mdir = "Some ?d" and cp = ?cp
            and d = ?d and mpath = ?mp and fw = None and cip = None and s = new_config_loader
            and cd = ?doc and st = ?st and m = raising_script and lf = ?lf and kw = ?kw
            and e = "RuntimeError ''cannot unpickle''", THEN conjunct2, THEN conjunct2, THEN conjunct2, THEN conjunct2, THEN conjunct2, THEN conjunct2, THEN conjunct1, THEN mp])
       (use man rc ep h6 in blast)
  have g2: "load_model ?W0 ?mp None None (Some ?d) new_config_loader
            = load_model ?W0 ?mp (Some ''pytorch'') (Some ''/app/user_model/inference.py'')
                (Some ?d) new_config_loader"
    using c0 by (rule conjunct2)
  have g4: "fst (load_model ?W1 ?mp None None (Some ?d) new_config_loader)
            = Inl (ValueError ''Invalid JSON in model_config.json: Expecting value'')"
    using c1 by (simp add: config_error_def)
  have g5: "''model_file'' \<in> set required_fields" using h2 by blast
  have g6: "isl (fst (load_model ?W2 ?mp None None (Some ?d) new_config_loader))"
    using c2 by auto
  have g7: "map_of manifest_without_load_name ''load'' = Some (PDict nameless_load)"
    and g8: "map_of nameless_load ''name'' = None"
    and g9: "map_of nameless_load ''function'' = None"
    using h3 by blast+
  have g10: "\<not> path_exists ?W4 (path_join ?d ''inference.py'')" using h4 by blast
  have g11: "fst (load_model ?W4 ?mp None None (Some ?d) new_config_loader)
             = Inl (FileNotFoundError ''Entry point file not found: inference.py'')"
    using c4 by simp
  have g12: "map_of predict_only_script ''load_model'' = None" using h5 by blast
  have g13: "isl (fst (load_model ?W5 ?mp None None (Some ?d) new_config_loader))"
    using c5 by auto
  show ?thesis
    by (intro conjI) (rule mp0 g2 f0 g4 g5 g6 g7 g8 g9 c3 g10 g11 g12 g13 c6)+
qed

section \<open>Argument tokens of the manifest: theorems\<close>

lemma starts_with_iff: "starts_with p s \<longleftrightarrow> (\<exists>t. s = p @ t)"
  by (induction p s rule: starts_with.induct) auto

lemma contains_str_iff: "contains_str x s \<longleftrightarrow> (\<exists>a b. s = a @ x @ b)"
proof (induction s)
  case Nil
  then show ?case by auto
next
  case (Cons c cs)
  have "(\<exists>a b. c # cs = a @ x @ b)
        \<longleftrightarrow> (\<exists>t. c # cs = x @ t) \<or> (\<exists>a b. cs = a @ x @ b)"
  proof
    assume "\<exists>a b. c # cs = a @ x @ b"
    then obtain a b where ab: "c # cs = a @ x @ b" by blast
    show "(\<exists>t. c # cs = x @ t) \<or> (\<exists>a b. cs = a @ x @ b)"
    proof (cases a)
      case Nil
      with ab show ?thesis by auto
    next
      case (Cons a0 a')
      with ab have "cs = a' @ x @ b" by simp
      then show ?thesis by blast
    qed
  next
    assume "(\<exists>t. c # cs = x @ t) \<or> (\<exists>a b. cs = a @ x @ b)"
    then show "\<exists>a b. c # cs = a @ x @ b"
    proof
      assume "\<exists>t. c # cs = x @ t"
      then obtain t where "c # cs = [] @ x @ t" by auto
      then show ?thesis by blast
    next
      assume "\<exists>a b. cs = a @ x @ b"
      then obtain a b where "c # cs = (c # a) @ x @ b" by auto
      then show ?thesis by blast
    qed
  qed
  with Cons show ?case by (simp add: starts_with_iff)
qed

lemma contains_str_self: "contains_str x (a @ x @ b)"
  by (auto simp: contains_str_iff)

lemma contains_str_within: "contains_str x s \<Longrightarrow> contains_str x (p @ s @ q)"
proof -
  assume "contains_str x s"
  then obtain a b where "s = a @ x @ b" by (auto simp: contains_str_iff)
  then have "p @ s @ q = (p @ a) @ x @ (b @ q)" by simp
  then show ?thesis unfolding contains_str_iff by blast
qed

lemma str_join_contains: "x \<in> set xs \<Longrightarrow> contains_str x (str_join sep xs)"
proof (induction sep xs rule: str_join.induct)
  case (1 sep)
  then show ?case by simp
next
  case (2 sep y)
  then show ?case using contains_str_self [of x "[]" "[]"] by simp
next
  case (3 sep y z zs)
  show ?case
  proof (cases "x = y")
    case True
    then show ?thesis
      using contains_str_self [of y "[]" "sep @ str_join sep (z # zs)"] by simp
  next
    case False
    with 3 have "contains_str x (str_join sep (z # zs))" by simp
    from contains_str_within [OF this, of "y @ sep" "[]"] show ?thesis by simp
  qed
qed

lemma first_invalid_arg_found:
  "set pre \<subseteq> set valid_args \<Longrightarrow> b \<notin> set valid_args \<Longrightarrow>
   first_invalid_arg (pre @ b # post) = Some b"
  by (induction pre) auto

lemma first_invalid_arg_none:
  "set v \<subseteq> set valid_args \<Longrightarrow> first_invalid_arg v = None"
  by (induction v) auto

lemma as_str_list_strings: "as_str_list (PList (map PStr ss)) = Some ss"
  by (induction ss) (auto simp: list_all_iff comp_def)

lemma function_config_reports_token:
  assumes "map_of fkvs ''args'' = Some (PList (map PStr (pre @ b # post)))"
    and "set pre \<subseteq> set valid_args" and "b \<notin> set valid_args"
  shows "\<exists>es. parse_function_config f (PDict fkvs) = Inl es
           \<and> (f @ '' -> '' @ invalid_arg_message b) \<in> set es"
proof -
  have v: "validate_args (pre @ b # post) = Inl (ValueError (invalid_arg_message b))"
    using first_invalid_arg_found [OF assms(2,3)] by (simp add: validate_args_def)
  show ?thesis
    using assms(1) v as_str_list_strings [of "pre @ b # post"]
    by (cases "field_str fkvs ''name''") (simp_all add: parse_function_config_def Let_def)
qed

lemma schema_reports_token:
  assumes "f = ''load'' \<or> f = ''predict''" and "map_of kvs f = Some (PDict fkvs)"
    and "map_of fkvs ''args'' = Some (PList (map PStr (pre @ b # post)))"
    and "set pre \<subseteq> set valid_args" and "b \<notin> set valid_args"
  shows "(f @ '' -> '' @ invalid_arg_message b) \<in> set (model_config_errors kvs)"
proof -
  from function_config_reports_token [OF assms(3,4,5), of f] obtain es where
    "parse_function_config f (PDict fkvs) = Inl es"
    "(f @ '' -> '' @ invalid_arg_message b) \<in> set es" by blast
  then have "(f @ '' -> '' @ invalid_arg_message b) \<in> set (errs (field_function kvs f))"
    using assms(2) by (simp add: field_function_def errs_def)
  then show ?thesis using assms(1) by (auto simp: model_config_errors_def)
qed

lemma load_kwargs_skips:
  "load_kwargs p d items kw
     = load_kwargs p d (filter (\<lambda>a. a = ''model_path'' \<or> a = ''model_dir'') items) kw"
  by (induction items arbitrary: kw) simp_all

lemma predict_kwargs_skips:
  "predict_kwargs x m items kw
     = predict_kwargs x m
         (filter (\<lambda>a. a = ''input_data'' \<or> a = ''model'' \<or> a = ''data'') items) kw"
  by (induction items arbitrary: kw) simp_all

text \<open>
  What the keyword arguments hold after the loops of \<open>_load_from_config\<close> and
  \<open>_predict_from_config\<close>, and what \<open>load_model\<close> and \<open>predict\<close> call when the
  schema is not available.
\<close>

lemma map_of_load_kwargs:
  "map_of (load_kwargs p d toks kw) k
     = (if k = ''model_path'' \<and> ''model_path'' \<in> set toks then Some (PStr p)
        else if k = ''model_dir'' \<and> ''model_dir'' \<in> set toks then Some (PStr d)
        else map_of kw k)"
proof (induction toks arbitrary: kw)
  case Nil
  show ?case by simp
next
  case (Cons a toks)
  consider (path) "a = ''model_path''" | (dir) "a = ''model_dir''"
    | (other) "a \<noteq> ''model_path''" "a \<noteq> ''model_dir''" by blast
  then show ?case
  proof cases
    case path
    have "load_kwargs p d (a # toks) kw
            = load_kwargs p d toks (AList.update ''model_path'' (PStr p) kw)"
      using path by simp
    then show ?thesis
      using path Cons.IH [of "AList.update ''model_path'' (PStr p) kw"]
      by (simp add: update_conv' del: load_kwargs.simps)
  next
    case dir
    have "load_kwargs p d (a # toks) kw
            = load_kwargs p d toks (AList.update ''model_dir'' (PStr d) kw)"
      using dir by simp
    then show ?thesis
      using dir Cons.IH [of "AList.update ''model_dir'' (PStr d) kw"]
      by (simp add: update_conv' del: load_kwargs.simps)
  next
    case other
    have "load_kwargs p d (a # toks) kw = load_kwargs p d toks kw"
      using other by simp
    then show ?thesis
      using other Cons.IH [of kw] by (auto simp del: load_kwargs.simps)
  qed
qed

lemma map_of_predict_kwargs:
  "map_of (predict_kwargs x h toks kw) k
     = (if k = ''input_data'' \<and> ''input_data'' \<in> set toks then Some x
        else if k = ''model'' \<and> ''model'' \<in> set toks then Some h
        else if k = ''data'' \<and> ''data'' \<in> set toks then Some x
        else map_of kw k)"
proof (induction toks arbitrary: kw)
  case Nil
  show ?case by simp
next
  case (Cons a toks)
  consider (input) "a = ''input_data''" | (handle) "a = ''model''" | (data) "a = ''data''"
    | (other) "a \<noteq> ''input_data''" "a \<noteq> ''model''" "a \<noteq> ''data''" by blast
  then show ?case
  proof cases
    case input
    have "predict_kwargs x h (a # toks) kw
            = predict_kwargs x h toks (AList.update ''input_data'' x kw)"
      using input by simp
    then show ?thesis
      using input Cons.IH [of "AList.update ''input_data'' x kw"]
      by (simp add: update_conv' del: predict_kwargs.simps)
  next
    case handle
    have "predict_kwargs x h (a # toks) kw
            = predict_kwargs x h toks (AList.update ''model'' h kw)"
      using handle by simp
    then show ?thesis
      using handle Cons.IH [of "AList.update ''model'' h kw"]
      by (simp add: update_conv' del: predict_kwargs.simps)
  next
    case data
    have "predict_kwargs x h (a # toks) kw
            = predict_kwargs x h toks (AList.update ''data'' x kw)"
      using data by simp
    then show ?thesis
      using data Cons.IH [of "AList.update ''data'' x kw"]
      by (simp add: update_conv' del: predict_kwargs.simps)
  next
    case other
    have "predict_kwargs x h (a # toks) kw = predict_kwargs x h toks kw"
      using other by simp
    then show ?thesis
      using other Cons.IH [of kw] by (auto simp del: predict_kwargs.simps)
  qed
qed

lemma update_fresh: "k \<notin> fst ` set kw \<Longrightarrow> AList.update k v kw = kw @ [(k, v)]"
  by (induction kw) auto

lemma load_kwargs_distinct:
  "distinct toks \<Longrightarrow> set toks \<inter> fst ` set kw = {} \<Longrightarrow>
   load_kwargs p d toks kw
     = kw @ map (\<lambda>a. (a, if a = ''model_path'' then PStr p else PStr d))
              (filter (\<lambda>a. a = ''model_path'' \<or> a = ''model_dir'') toks)"
proof (induction toks arbitrary: kw)
  case Nil
  then show ?case by simp
next
  case (Cons a toks)
  then have fresh: "a \<notin> fst ` set kw" and d: "distinct toks" and na: "a \<notin> set toks"
    and disj: "set toks \<inter> fst ` set kw = {}" by auto
  consider (path) "a = ''model_path''" | (dir) "a = ''model_dir''"
    | (other) "a \<noteq> ''model_path''" "a \<noteq> ''model_dir''" by blast
  then show ?case
  proof cases
    case path
    let ?kw = "kw @ [(''model_path'', PStr p)]"
    have step: "load_kwargs p d (a # toks) kw = load_kwargs p d toks ?kw"
      using path fresh by (simp add: update_fresh)
    have "set toks \<inter> fst ` set ?kw = {}" using disj na path by auto
    from Cons.IH [OF d this] show ?thesis
      unfolding step using path by (simp del: load_kwargs.simps)
  next
    case dir
    let ?kw = "kw @ [(''model_dir'', PStr d)]"
    have step: "load_kwargs p d (a # toks) kw = load_kwargs p d toks ?kw"
      using dir fresh by (simp add: update_fresh)
    have "set toks \<inter> fst ` set ?kw = {}" using disj na dir by auto
    from Cons.IH [OF d this] show ?thesis
      unfolding step using dir by (simp del: load_kwargs.simps)
  next
    case other
    have step: "load_kwargs p d (a # toks) kw = load_kwargs p d toks kw"
      using other by simp
    from Cons.IH [OF d disj] show ?thesis
      unfolding step using other by (simp del: load_kwargs.simps)
  qed
qed

lemma predict_kwargs_distinct:
  "distinct toks \<Longrightarrow> set toks \<inter> fst ` set kw = {} \<Longrightarrow>
   predict_kwargs x h toks kw
     = kw @ map (\<lambda>a. (a, if a = ''model'' then h else x))
              (filter (\<lambda>a. a = ''input_data'' \<or> a = ''model'' \<or> a = ''data'') toks)"
proof (induction toks arbitrary: kw)
  case Nil
  then show ?case by simp
next
  case (Cons a toks)
  then have fresh: "a \<notin> fst ` set kw" and d: "distinct toks" and na: "a \<notin> set toks"
    and disj: "set toks \<inter> fst ` set kw = {}" by auto
  consider (input) "a = ''input_data''" | (handle) "a = ''model''" | (data) "a = ''data''"
    | (other) "a \<noteq> ''input_data''" "a \<noteq> ''model''" "a \<noteq> ''data''" by blast
  then show ?case
  proof cases
    case input
    let ?kw = "kw @ [(''input_data'', x)]"
    have step: "predict_kwargs x h (a # toks) kw = predict_kwargs x h toks ?kw"
      using input fresh by (simp add: update_fresh)
    have "set toks \<inter> fst ` set ?kw = {}" using disj na input by auto
    from Cons.IH [OF d this] show ?thesis
      unfolding step using input by (simp del: predict_kwargs.simps)
  next
    case handle
    let ?kw = "kw @ [(''model'', h)]"
    have step: "predict_kwargs x h (a # toks) kw = predict_kwargs x h toks ?kw"
      using handle fresh by (simp add: update_fresh)
    have "set toks \<inter> fst ` set ?kw = {}" using disj na handle by auto
    from Cons.IH [OF d this] show ?thesis
      unfolding step using handle by (simp del: predict_kwargs.simps)
  next
    case data
    let ?kw = "kw @ [(''data'', x)]"
    have step: "predict_kwargs x h (a # toks) kw = predict_kwargs x h toks ?kw"
      using data fresh by (simp add: update_fresh)
    have "set toks \<inter> fst ` set ?kw = {}" using disj na data by auto
    from Cons.IH [OF d this] show ?thesis
      unfolding step using data by (simp del: predict_kwargs.simps)
  next
    case other
    have step: "predict_kwargs x h (a # toks) kw = predict_kwargs x h toks kw"
      using other by simp
    from Cons.IH [OF d disj] show ?thesis
      unfolding step using other by (simp del: predict_kwargs.simps)
  qed
qed

lemma str_items_strings: "str_items (PList (map PStr toks)) = Inr toks"
  by (induction toks) (auto simp: list_all_iff comp_def)

lemma function_name_given:
  "map_of fkvs ''name'' = Some (PStr n) \<Longrightarrow> n \<noteq> [] \<Longrightarrow>
   function_name (PDict fkvs) = Inr (PStr n)"
  by (simp add: function_name_def dict_get_def)

lemma read_config_without_schema:
  assumes "\<not> validator_available w" and "open_json_load w cp = Inr (PDict kvs)"
    and "set required_fields \<subseteq> fst ` set kvs"
  shows "read_config w cp = Inr (PDict kvs, ConfigData (PDict kvs))"
proof -
  have "filter (\<lambda>f. f \<notin> fst ` set kvs) required_fields = []"
    using assms(3) by (auto simp: filter_empty_conv)
  then show ?thesis using assms(1,2) by (simp add: read_config_def missing_fields_lists)
qed

lemma load_without_schema:
  assumes "\<not> validator_available w" and "manifest_path w mdir = Some (cp, d)"
    and "open_json_load w cp = Inr (PDict kvs)" and "set required_fields \<subseteq> fst ` set kvs"
    and "map_of kvs ''entry_point'' = Some (PStr ep)" and "path_exists w (path_join d ep)"
    and "exec_module w (path_join d ep) = Inr ci"
    and "map_of kvs ''load'' = Some (PDict lkvs)" and "map_of lkvs ''name'' = Some (PStr n)"
    and "n \<noteq> []" and "map_of lkvs ''args'' = Some (PList (map PStr toks))"
    and "map_of ci n = Some lf" and "map_of kvs ''model_file'' = Some (PStr mf)"
  shows "fst (load_model w mpath fw cip mdir s)
           = call lf [] (load_kwargs (path_join d mf) d toks [])"
proof -
  have rc: "read_config w cp = Inr (PDict kvs, ConfigData (PDict kvs))"
    by (rule read_config_without_schema [OF assms(1,3,4)])
  have ep: "load_entry_point w d (PDict kvs) = Inr ci"
    using assms(5,6,7) by (simp add: load_entry_point_def)
  have rs: "resolve_load_call ci d (PDict kvs)
              = Inr (lf, load_kwargs (path_join d mf) d toks [])"
    using assms(8,11,12,13) function_name_given [OF assms(9,10)]
    by (simp add: resolve_load_call_def dict_get_def str_items_strings del: str_items.simps)
  show ?thesis
    using assms(2) rc ep rs
    by (cases "call lf [] (load_kwargs (path_join d mf) d toks [])")
       (simp_all add: load_model_manifest load_from_config_def)
qed

lemma predict_without_schema:
  assumes "model t \<noteq> PNone" and "use_custom_inference t" and "custom_inference t = Some ci"
    and "model_config t = ConfigData (PDict kvs)"
    and "map_of kvs ''predict'' = Some (PDict pkvs)" and "map_of pkvs ''name'' = Some (PStr n)"
    and "n \<noteq> []" and "map_of pkvs ''args'' = Some (PList (map PStr toks))"
    and "map_of ci n = Some pf"
  shows "predict w t x = call pf [] (predict_kwargs x (model t) toks [])"
proof -
  have ne: "kvs \<noteq> []" using assms(5) by auto
  show ?thesis
    using assms ne function_name_given [OF assms(6,7)]
    by (simp add: predict_def try_custom_predict_def predict_from_config_def the_module_def
        dict_get_def str_items_strings del: str_items.simps)
qed

text \<open>
  Claim C3 says that a manifest with an argument token outside \<open>model_path\<close>,
  \<open>model_dir\<close>, \<open>input_data\<close>, \<open>model\<close> always fails validation, and that no unknown
  token is skipped and \<open>data\<close> is not accepted. When the schema could not be imported,
  the manifest below, with the load token \<open>weights\<close> and the predict token \<open>data\<close>,
  loads and predicts: \<open>weights\<close> is skipped and \<open>data\<close> carries the input.
\<close>

theorem unknown_token_accepted_counterexample:
  "''weights'' \<notin> set valid_args \<and> ''data'' \<notin> set valid_args
   \<and> load_kwargs ''/app/user_model/model.pkl'' ''/app/user_model'' [''weights''] [] = []
   \<and> fst (zip_load False ''weights'' ''data'') = Inr (PObj 7 [])
   \<and> predict (zip_world False ''weights'' ''data'') (snd (zip_load False ''weights'' ''data''))
         (PStr ''good movie'')
       = Inr (PList [PStr ''label'', PStr ''good movie''])"
  by code_simp

text \<open>
  Claim C3, amended: the schema's validator rejects an argument list at its first token
  outside \<open>model_path\<close>, \<open>model_dir\<close>, \<open>input_data\<close>, \<open>model\<close> with an error that
  names it, and when the schema is available a manifest whose \<open>load.args\<close> or
  \<open>predict.args\<close> has such a token makes \<open>load_model\<close> raise a \<open>ValueError\<close> whose
  message contains that error. When the schema is not available, manifest-driven loading
  takes \<open>model_path\<close> and \<open>model_dir\<close> and skips every other token, and manifest-driven
  prediction takes \<open>input_data\<close>, \<open>model\<close> and \<open>data\<close>, an alias of the input, and
  skips every other token: \<open>load_model\<close> calls the declared load function with the
  keyword \<open>model_path\<close> bound to the model file in the model directory and
  \<open>model_dir\<close> bound to the model directory, as far as the manifest lists them, and
  \<open>predict\<close> calls the declared predict function with \<open>input_data\<close> and \<open>data\<close>
  bound to the input and \<open>model\<close> bound to the handle, as far as the manifest lists
  them, and with no other keyword.
\<close>

theorem argument_tokens:
  "(set pre \<subseteq> set valid_args \<and> b \<notin> set valid_args
      \<longrightarrow> validate_args (pre @ b # post) = Inl (ValueError (invalid_arg_message b))
          \<and> contains_str b (invalid_arg_message b))
   \<and> (set v \<subseteq> set valid_args \<longrightarrow> validate_args v = Inr v)
   \<and> (validator_available w \<and> manifest_path w mdir = Some (cp, d)
        \<and> open_json_load w cp = Inr (PDict kvs) \<and> (f = ''load'' \<or> f = ''predict'')
        \<and> map_of kvs f = Some (PDict fkvs)
        \<and> map_of fkvs ''args'' = Some (PList (map PStr (pre @ b # post)))
        \<and> set pre \<subseteq> set valid_args \<and> b \<notin> set valid_args
      \<longrightarrow> (\<exists>msg. load_model w mpath fw cip mdir s
                   = (Inl (ValueError msg), s\<lparr>model_path := Some mpath\<rparr>)
                 \<and> contains_str (invalid_arg_message b) msg))
   \<and> load_kwargs p d items kw
       = load_kwargs p d (filter (\<lambda>a. a = ''model_path'' \<or> a = ''model_dir'') items) kw
   \<and> predict_kwargs x m items kw
       = predict_kwargs x m
           (filter (\<lambda>a. a = ''input_data'' \<or> a = ''model'' \<or> a = ''data'') items) kw
   \<and> predict_kwargs x m [''data''] [] = [(''data'', x)]
   \<and> map_of (load_kwargs p d items kw) k
       = (if k = ''model_path'' \<and> ''model_path'' \<in> set items then Some (PStr p)
          else if k = ''model_dir'' \<and> ''model_dir'' \<in> set items then Some (PStr d)
          else map_of kw k)
   \<and> map_of (predict_kwargs x m items kw) k
       = (if k = ''input_data'' \<and> ''input_data'' \<in> set items then Some x
          else if k = ''model'' \<and> ''model'' \<in> set items then Some m
          else if k = ''data'' \<and> ''data'' \<in> set items then Some x
          else map_of kw k)
   \<and> (distinct items
      \<longrightarrow> load_kwargs p d items []
            = map (\<lambda>a. (a, if a = ''model_path'' then PStr p else PStr d))
                (filter (\<lambda>a. a = ''model_path'' \<or> a = ''model_dir'') items)
          \<and> predict_kwargs x m items []
            = map (\<lambda>a. (a, if a = ''model'' then m else x))
                (filter (\<lambda>a. a = ''input_data'' \<or> a = ''model'' \<or> a = ''data'') items))
   \<and> (\<not> validator_available w \<and> manifest_path w mdir = Some (cp, d)
        \<and> open_json_load w cp = Inr (PDict kvs) \<and> set required_fields \<subseteq> fst ` set kvs
        \<and> map_of kvs ''entry_point'' = Some (PStr ep) \<and> path_exists w (path_join d ep)
        \<and> exec_module w (path_join d ep) = Inr ci
        \<and> map_of kvs ''load'' = Some (PDict lkvs) \<and> map_of lkvs ''name'' = Some (PStr n)
        \<and> n \<noteq> [] \<and> map_of lkvs ''args'' = Some (PList (map PStr toks))
        \<and> map_of ci n = Some lf \<and> map_of kvs ''model_file'' = Some (PStr mf)
      \<longrightarrow> fst (load_model w mpath fw cip mdir s)
            = call lf [] (load_kwargs (path_join d mf) d toks []))
   \<and> (model t \<noteq> PNone \<and> use_custom_inference t \<and> custom_inference t = Some ci
        \<and> model_config t = ConfigData (PDict kvs)
        \<and> map_of kvs ''predict'' = Some (PDict pkvs) \<and> map_of pkvs ''name'' = Some (PStr pn)
        \<and> pn \<noteq> [] \<and> map_of pkvs ''args'' = Some (PList (map PStr ptoks))
        \<and> map_of ci pn = Some pf
      \<longrightarrow> predict w t x = call pf [] (predict_kwargs x (model t) ptoks []))"
proof -
  have args: "validate_args (pre @ b # post) = Inl (ValueError (invalid_arg_message b))
              \<and> contains_str b (invalid_arg_message b)"
    if "set pre \<subseteq> set valid_args" "b \<notin> set valid_args"
  proof -
    have "invalid_arg_message b
          = (''Invalid argument '' @ [CHR 0x27]) @ b
            @ ([CHR 0x27] @ ''. Must be one of: '' @ str_join '', '' valid_args)"
      by (simp add: invalid_arg_message_def)
    then have "contains_str b (invalid_arg_message b)"
      using contains_str_self [of b "''Invalid argument '' @ [CHR 0x27]"
              "[CHR 0x27] @ ''. Must be one of: '' @ str_join '', '' valid_args"]
      by simp
    then show ?thesis
      using first_invalid_arg_found [OF that] by (simp add: validate_args_def)
  qed
  have valid: "validate_args v = Inr v" if "set v \<subseteq> set valid_args"
    using first_invalid_arg_none [OF that] by (simp add: validate_args_def)
  have load: "\<exists>msg. load_model w mpath fw cip mdir s
                   = (Inl (ValueError msg), s\<lparr>model_path := Some mpath\<rparr>)
                 \<and> contains_str (invalid_arg_message b) msg"
    if "validator_available w" "manifest_path w mdir = Some (cp, d)"
       "open_json_load w cp = Inr (PDict kvs)" "f = ''load'' \<or> f = ''predict''"
       "map_of kvs f = Some (PDict fkvs)"
       "map_of fkvs ''args'' = Some (PList (map PStr (pre @ b # post)))"
       "set pre \<subseteq> set valid_args" "b \<notin> set valid_args"
  proof -
    let ?tok = "f @ '' -> '' @ invalid_arg_message b"
    let ?es = "model_config_errors kvs"
    let ?inner = "''Invalid model_config.json: '' @ str_join [CHR 0x0A] ?es"
    let ?msg = "''Invalid model_config.json: '' @ ?inner"
    have tok: "?tok \<in> set ?es" by (rule schema_reports_token [OF that(4,5,6,7,8)])
    then have ne: "?es \<noteq> []" by auto
    have rc: "read_config w cp = Inl (ValueError ?inner)"
      using that(1,3) validate_file_errors [OF that(3) ne] by (simp add: read_config_def)
    have res: "load_model w mpath fw cip mdir s
               = (Inl (ValueError ?msg), s\<lparr>model_path := Some mpath\<rparr>)"
      using that(2) rc
      by (simp add: load_model_manifest load_from_config_read_fails config_error_def)
    have "contains_str ?tok (str_join [CHR 0x0A] ?es)" by (rule str_join_contains [OF tok])
    moreover have "contains_str (invalid_arg_message b) ?tok"
      using contains_str_self [of "invalid_arg_message b" "f @ '' -> ''" "[]"] by simp
    ultimately have "contains_str (invalid_arg_message b) (str_join [CHR 0x0A] ?es)"
      unfolding contains_str_iff by (metis append.assoc)
    from contains_str_within [OF this,
        of "''Invalid model_config.json: '' @ ''Invalid model_config.json: ''" "[]"]
    have "contains_str (invalid_arg_message b) ?msg" by simp
    with res show ?thesis by blast
  qed
  have data_alias: "predict_kwargs x m [''data''] [] = [(''data'', x)]" by simp
  have exact: "load_kwargs p d items []
                 = map (\<lambda>a. (a, if a = ''model_path'' then PStr p else PStr d))
                     (filter (\<lambda>a. a = ''model_path'' \<or> a = ''model_dir'') items)
               \<and> predict_kwargs x m items []
                 = map (\<lambda>a. (a, if a = ''model'' then m else x))
                     (filter (\<lambda>a. a = ''input_data'' \<or> a = ''model'' \<or> a = ''data'') items)"
    if "distinct items"
    using load_kwargs_distinct [OF that, of "[]" p d]
      predict_kwargs_distinct [OF that, of "[]" x m]
    by simp
  have loads: "fst (load_model w mpath fw cip mdir s)
                 = call lf [] (load_kwargs (path_join d mf) d toks [])"
    if "\<not> validator_available w" "manifest_path w mdir = Some (cp, d)"
       "open_json_load w cp = Inr (PDict kvs)" "set required_fields \<subseteq> fst ` set kvs"
       "map_of kvs ''entry_point'' = Some (PStr ep)" "path_exists w (path_join d ep)"
       "exec_module w (path_join d ep) = Inr ci"
       "map_of kvs ''load'' = Some (PDict lkvs)" "map_of lkvs ''name'' = Some (PStr n)"
       "n \<noteq> []" "map_of lkvs ''args'' = Some (PList (map PStr toks))"
       "map_of ci n = Some lf" "map_of kvs ''model_file'' = Some (PStr mf)"
    using that by (rule load_without_schema)
  have predicts: "predict w t x = call pf [] (predict_kwargs x (model t) ptoks [])"
    if "model t \<noteq> PNone" "use_custom_inference t" "custom_inference t = Some ci"
       "model_config t = ConfigData (PDict kvs)"
       "map_of kvs ''predict'' = Some (PDict pkvs)" "map_of pkvs ''name'' = Some (PStr pn)"
       "pn \<noteq> []" "map_of pkvs ''args'' = Some (PList (map PStr ptoks))"
       "map_of ci pn = Some pf"
    using that by (rule predict_without_schema)
  have first_part:
    "(set pre \<subseteq> set valid_args \<and> b \<notin> set valid_args
        \<longrightarrow> validate_args (pre @ b # post) = Inl (ValueError (invalid_arg_message b))
            \<and> contains_str b (invalid_arg_message b))
     \<and> (set v \<subseteq> set valid_args \<longrightarrow> validate_args v = Inr v)
     \<and> (validator_available w \<and> manifest_path w mdir = Some (cp, d)
          \<and> open_json_load w cp = Inr (PDict kvs) \<and> (f = ''load'' \<or> f = ''predict'')
          \<and> map_of kvs f = Some (PDict fkvs)
          \<and> map_of fkvs ''args'' = Some (PList (map PStr (pre @ b # post)))
          \<and> set pre \<subseteq> set valid_args \<and> b \<notin> set valid_args
        \<longrightarrow> (\<exists>msg. load_model w mpath fw cip mdir s
                     = (Inl (ValueError msg), s\<lparr>model_path := Some mpath\<rparr>)
                   \<and> contains_str (invalid_arg_message b) msg))"
    using args valid load by blast
  have second_part:
    "(distinct items
        \<longrightarrow> load_kwargs p d items []
              = map (\<lambda>a. (a, if a = ''model_path'' then PStr p else PStr d))
                  (filter (\<lambda>a. a = ''model_path'' \<or> a = ''model_dir'') items)
            \<and> predict_kwargs x m items []
              = map (\<lambda>a. (a, if a = ''model'' then m else x))
                  (filter (\<lambda>a. a = ''input_data'' \<or> a = ''model'' \<or> a = ''data'') items))
     \<and> (\<not> validator_available w \<and> manifest_path w mdir = Some (cp, d)
          \<and> open_json_load w cp = Inr (PDict kvs) \<and> set required_fields \<subseteq> fst ` set kvs
          \<and> map_of kvs ''entry_point'' = Some (PStr ep) \<and> path_exists w (path_join d ep)
          \<and> exec_module w (path_join d ep) = Inr ci
          \<and> map_of kvs ''load'' = Some (PDict lkvs) \<and> map_of lkvs ''name'' = Some (PStr n)
          \<and> n \<noteq> [] \<and> map_of lkvs ''args'' = Some (PList (map PStr toks))
          \<and> map_of ci n = Some lf \<and> map_of kvs ''model_file'' = Some (PStr mf)
        \<longrightarrow> fst (load_model w mpath fw cip mdir s)
              = call lf [] (load_kwargs (path_join d mf) d toks []))
     \<and> (model t \<noteq> PNone \<and> use_custom_inference t \<and> custom_inference t = Some ci
          \<and> model_config t = ConfigData (PDict kvs)
          \<and> map_of kvs ''predict'' = Some (PDict pkvs) \<and> map_of pkvs ''name'' = Some (PStr pn)
          \<and> pn \<noteq> [] \<and> map_of pkvs ''args'' = Some (PList (map PStr ptoks))
          \<and> map_of ci pn = Some pf
        \<longrightarrow> predict w t x = call pf [] (predict_kwargs x (model t) ptoks []))"
    using exact loads predicts by blast
  show ?thesis
    by (intro conjI)
       (rule first_part [THEN conjunct1] first_part [THEN conjunct2, THEN conjunct1]
          first_part [THEN conjunct2, THEN conjunct2]
          load_kwargs_skips predict_kwargs_skips data_alias
          map_of_load_kwargs map_of_predict_kwargs
          second_part [THEN conjunct1] second_part [THEN conjunct2, THEN conjunct1]
          second_part [THEN conjunct2, THEN conjunct2])+
qed

theorem argument_tokens_witness:
  "set [''model_path''] \<subseteq> set valid_args \<and> ''weights'' \<notin> set valid_args
   \<and> validate_args ([''model_path''] @ ''weights'' # [''model''])
       = Inl (ValueError (invalid_arg_message ''weights''))
   \<and> contains_str ''weights'' (invalid_arg_message ''weights'')
   \<and> set [''model_path'', ''model_dir''] \<subseteq> set valid_args
   \<and> validate_args [''model_path'', ''model_dir''] = Inr [''model_path'', ''model_dir'']
   \<and> validator_available (zip_world True ''weights'' ''input_data'')
   \<and> manifest_path (zip_world True ''weights'' ''input_data'') (Some ''/app/user_model'')
       = Some (''/app/user_model/model_config.json'', ''/app/user_model'')
   \<and> (\<exists>msg. fst (zip_load True ''weights'' ''input_data'') = Inl (ValueError msg)
             \<and> contains_str (invalid_arg_message ''weights'') msg)
   \<and> distinct [''model_dir'', ''weights'', ''model_path'']
   \<and> load_kwargs ''/m/model.pkl'' ''/m'' [''model_dir'', ''weights'', ''model_path''] []
       = [(''model_dir'', PStr ''/m''), (''model_path'', PStr ''/m/model.pkl'')]
   \<and> distinct [''model'', ''data'', ''verbose'', ''input_data'']
   \<and> predict_kwargs (PStr ''good'') (PObj 7 []) [''model'', ''data'', ''verbose'', ''input_data''] []
       = [(''model'', PObj 7 []), (''data'', PStr ''good''), (''input_data'', PStr ''good'')]
   \<and> \<not> validator_available echo_world
   \<and> manifest_path echo_world (Some ''/app/user_model'')
       = Some (''/app/user_model/model_config.json'', ''/app/user_model'')
   \<and> fst (load_model echo_world ''/app/user_model/model.pkl'' None None
             (Some ''/app/user_model'') new_config_loader)
       = Inr (PDict [(''model_dir'', PStr ''/app/user_model''),
                     (''model_path'', PStr ''/app/user_model/model.pkl'')])
   \<and> model echo_session \<noteq> PNone \<and> use_custom_inference echo_session
   \<and> model_config echo_session = ConfigData (PDict echo_manifest)
   \<and> predict echo_world echo_session (PStr ''good'')
       = Inr (PDict [(''model'', PObj 7 []), (''data'', PStr ''good''),
                     (''input_data'', PStr ''good'')])"
proof -
  let ?W = "zip_world True ''weights'' ''input_data''"
  let ?cp = "''/app/user_model/model_config.json''"
  let ?d = "''/app/user_model''"
  let ?mp = "''/app/user_model/model.pkl''"
  let ?kvs = "manifest_items ''weights'' ''input_data''"
  let ?fkvs = "[(''name'', PStr ''load_model''), (''args'', PList [PStr ''weights''])]"
  let ?ltoks = "[''model_dir'', ''weights'', ''model_path'']"
  let ?ptoks = "[''model'', ''data'', ''verbose'', ''input_data'']"
  let ?lf = "Callable (Inr 2) (\<lambda>args kwargs. Inr (PDict kwargs))"
  let ?pf = "Callable (Inr 3) (\<lambda>args kwargs. Inr (PDict kwargs))"
  have h1: "set [''model_path''] \<subseteq> set valid_args \<and> ''weights'' \<notin> set valid_args"
    by (simp add: valid_args_def)
  have c1: "validate_args ([''model_path''] @ ''weights'' # [''model''])
              = Inl (ValueError (invalid_arg_message ''weights''))
            \<and> contains_str ''weights'' (invalid_arg_message ''weights'')"
    by (rule argument_tokens [where pre = "[''model_path'']" and b = "''weights''"
            and post = "[''model'']", THEN conjunct1, THEN mp])
       (rule h1)
  have h2: "set [''model_path'', ''model_dir''] \<subseteq> set valid_args"
    by (simp add: valid_args_def)
  have c2: "validate_args [''model_path'', ''model_dir''] = Inr [''model_path'', ''model_dir'']"
    by (rule argument_tokens [where v = "[''model_path'', ''model_dir'']",
            THEN conjunct2, THEN conjunct1, THEN mp])
       (rule h2)
  have h3a: "validator_available ?W"
    by (simp add: zip_world_def deploy_world_def plain_world_def)
  have h3b: "manifest_path ?W (Some ?d) = Some (?cp, ?d)"
    by (simp add: manifest_path_def existing_def zip_world_def deploy_world_def
        plain_world_def zip_files_def path_join_def)
  have h3c: "open_json_load ?W ?cp = Inr (PDict ?kvs)"
    by (simp add: zip_world_def deploy_world_def plain_world_def manifest_doc_def)
  have h3d: "map_of ?kvs ''load'' = Some (PDict ?fkvs)
             \<and> map_of ?fkvs ''args'' = Some (PList (map PStr ([] @ ''weights'' # [])))
             \<and> set [] \<subseteq> set valid_args"
    by (simp add: manifest_items_def)
  have c3: "\<exists>msg. load_model ?W ?mp None None (Some ?d) new_config_loader
              = (Inl (ValueError msg), new_config_loader\<lparr>model_path := Some ?mp\<rparr>)
            \<and> contains_str (invalid_arg_message ''weights'') msg"
    by (rule argument_tokens [where w = ?W and mdir = "Some ?d" and cp = ?cp and d = ?d
            and kvs = ?kvs and f = "''load''" and fkvs = ?fkvs and pre = "[]"
            and b = "''weights''" and post = "[]" and mpath = ?mp and fw = None
            and cip = None and s = new_config_loader,
            THEN conjunct2, THEN conjunct2, THEN conjunct1, THEN mp])
       (use h1 h3a h3b h3c h3d in blast)
  have g3: "\<exists>msg. fst (zip_load True ''weights'' ''input_data'') = Inl (ValueError msg)
             \<and> contains_str (invalid_arg_message ''weights'') msg"
    using c3 by (auto simp: zip_load_def)
  \<comment> \<open>the keyword arguments of distinct tokens\<close>
  have h4: "distinct ?ltoks" by simp
  have c4: "load_kwargs ''/m/model.pkl'' ''/m'' ?ltoks []
              = map (\<lambda>a. (a, if a = ''model_path'' then PStr ''/m/model.pkl'' else PStr ''/m''))
                  (filter (\<lambda>a. a = ''model_path'' \<or> a = ''model_dir'') ?ltoks)"
    by (rule argument_tokens [where items = ?ltoks and p = "''/m/model.pkl''" and d = "''/m''",
            THEN conjunct2, THEN conjunct2, THEN conjunct2, THEN conjunct2, THEN conjunct2,
            THEN conjunct2, THEN conjunct2, THEN conjunct2, THEN conjunct1, THEN mp,
            THEN conjunct1])
       (rule h4)
  have g4: "load_kwargs ''/m/model.pkl'' ''/m'' ?ltoks []
              = [(''model_dir'', PStr ''/m''), (''model_path'', PStr ''/m/model.pkl'')]"
    unfolding c4 by simp
  have h5: "distinct ?ptoks" by simp
  have c5: "predict_kwargs (PStr ''good'') (PObj 7 []) ?ptoks []
              = map (\<lambda>a. (a, if a = ''model'' then PObj 7 [] else PStr ''good''))
                  (filter (\<lambda>a. a = ''input_data'' \<or> a = ''model'' \<or> a = ''data'') ?ptoks)"
    by (rule argument_tokens [where items = ?ptoks and x = "PStr ''good''" and m = "PObj 7 []",
            THEN conjunct2, THEN conjunct2, THEN conjunct2, THEN conjunct2, THEN conjunct2,
            THEN conjunct2, THEN conjunct2, THEN conjunct2, THEN conjunct1, THEN mp,
            THEN conjunct2])
       (rule h5)
  have g5: "predict_kwargs (PStr ''good'') (PObj 7 []) ?ptoks []
              = [(''model'', PObj 7 []), (''data'', PStr ''good''),
                 (''input_data'', PStr ''good'')]"
    unfolding c5 by simp
  \<comment> \<open>loading and predicting without the schema\<close>
  have h6a: "\<not> validator_available echo_world"
    by (simp add: echo_world_def deploy_world_def plain_world_def)
  have h6b: "manifest_path echo_world (Some ?d) = Some (?cp, ?d)"
    by (simp add: manifest_path_def existing_def echo_world_def deploy_world_def
        plain_world_def zip_files_def path_join_def)
  have h6c: "open_json_load echo_world ?cp = Inr (PDict echo_manifest)
             \<and> set required_fields \<subseteq> fst ` set echo_manifest
             \<and> map_of echo_manifest ''entry_point'' = Some (PStr ''inference.py'')
             \<and> map_of echo_manifest ''load'' = Some (PDict echo_load_config)
             \<and> map_of echo_load_config ''name'' = Some (PStr ''load_model'')
             \<and> ''load_model'' \<noteq> []
             \<and> map_of echo_load_config ''args'' = Some (PList (map PStr ?ltoks))
             \<and> map_of echo_manifest ''model_file'' = Some (PStr ''model.pkl'')"
    by (simp add: echo_world_def deploy_world_def plain_world_def echo_manifest_def
        required_fields_def echo_load_config_def)
  have h6d: "path_exists echo_world (path_join ?d ''inference.py'')
             \<and> exec_module echo_world (path_join ?d ''inference.py'') = Inr echo_script
             \<and> map_of echo_script ''load_model'' = Some ?lf"
    by (simp add: echo_world_def deploy_world_def plain_world_def zip_files_def path_join_def
        echo_script_def)
  have c6: "fst (load_model echo_world ?mp None None (Some ?d) new_config_loader)
              = call ?lf [] (load_kwargs (path_join ?d ''model.pkl'') ?d ?ltoks [])"
    by (rule argument_tokens [where w = echo_world and mdir = "Some ?d" and cp = ?cp
            and d = ?d and kvs = echo_manifest and ep = "''inference.py''"
            and ci = echo_script and lkvs = echo_load_config and n = "''load_model''"
            and toks = ?ltoks and lf = ?lf and mf = "''model.pkl''" and mpath = ?mp
            and fw = None and cip = None and s = new_config_loader,
            THEN conjunct2, THEN conjunct2, THEN conjunct2, THEN conjunct2, THEN conjunct2,
            THEN conjunct2, THEN conjunct2, THEN conjunct2, THEN conjunct2, THEN conjunct1,
            THEN mp])
       (use h6a h6b h6c h6d in blast)
  have e6: "call ?lf [] (load_kwargs (path_join ?d ''model.pkl'') ?d ?ltoks [])
              = Inr (PDict [(''model_dir'', PStr ?d), (''model_path'', PStr ?mp)])"
    by (simp add: path_join_def)
  have g6: "fst (load_model echo_world ?mp None None (Some ?d) new_config_loader)
              = Inr (PDict [(''model_dir'', PStr ?d), (''model_path'', PStr ?mp)])"
    unfolding c6 by (rule e6)
  have h7: "model echo_session \<noteq> PNone \<and> use_custom_inference echo_session
            \<and> custom_inference echo_session = Some echo_script
            \<and> model_config echo_session = ConfigData (PDict echo_manifest)
            \<and> map_of echo_manifest ''predict'' = Some (PDict echo_predict_config)
            \<and> map_of echo_predict_config ''name'' = Some (PStr ''classify'')
            \<and> ''classify'' \<noteq> []
            \<and> map_of echo_predict_config ''args'' = Some (PList (map PStr ?ptoks))
            \<and> map_of echo_script ''classify'' = Some ?pf"
    by (simp add: echo_session_def new_config_loader_def echo_manifest_def
        echo_predict_config_def echo_script_def)
  have c7: "predict echo_world echo_session (PStr ''good'')
              = call ?pf [] (predict_kwargs (PStr ''good'') (model echo_session) ?ptoks [])"
    by (rule argument_tokens [where w = echo_world and t = echo_session
            and ci = echo_script and kvs = echo_manifest and pkvs = echo_predict_config
            and pn = "''classify''" and ptoks = ?ptoks and pf = ?pf and x = "PStr ''good''",
            THEN conjunct2, THEN conjunct2, THEN conjunct2, THEN conjunct2, THEN conjunct2,
            THEN conjunct2, THEN conjunct2, THEN conjunct2, THEN conjunct2, THEN conjunct2,
            THEN mp])
       (use h7 in blast)
  have m7: "model echo_session = PObj 7 []"
    by (simp add: echo_session_def new_config_loader_def)
  have g7: "predict echo_world echo_session (PStr ''good'')
              = Inr (PDict [(''model'', PObj 7 []), (''data'', PStr ''good''),
                            (''input_data'', PStr ''good'')])"
    unfolding c7 m7 g5 by simp
  have g1: "set [''model_path''] \<subseteq> set valid_args" and g1': "''weights'' \<notin> set valid_args"
    using h1 by blast+
  have g7a: "model echo_session \<noteq> PNone" and g7b: "use_custom_inference echo_session"
    and g7c: "model_config echo_session = ConfigData (PDict echo_manifest)"
    using h7 by blast+
  show ?thesis
    by (intro conjI)
       (rule g1 g1' c1 [THEN conjunct1] c1 [THEN conjunct2] h2 c2 h3a h3b g3 h4 g4 h5 g5
          h6a h6b g6 g7a g7b g7c g7)+
qed

end
